theory Spec2Isabelle
  imports Complex_Main
begin

section \<open>CloudGuard: policy engine, remediation executor, anomaly detector, action tokens\<close>

text \<open>
  A shallow embedding of the decision core of CloudGuard:
  \<^item> \<^verbatim>\<open>src/api/safety_rules.py\<close> (class \<^verbatim>\<open>SafetyRules\<close>),
  \<^item> \<^verbatim>\<open>src/api/gcp_executor.py\<close> (class \<^verbatim>\<open>GCPExecutor\<close>),
  \<^item> \<^verbatim>\<open>src/data/baseline_tracker.py\<close> (class \<^verbatim>\<open>BaselineTracker\<close>),
  \<^item> \<^verbatim>\<open>src/api/jwt_handler.py\<close> (class \<^verbatim>\<open>JWTHandler\<close>).

  Conventions. A Python \<^verbatim>\<open>str\<close> is a \<open>string\<close>; a \<^verbatim>\<open>float\<close> is a \<open>real\<close> (exact
  arithmetic, no rounding error, no NaN); a naive UTC \<^verbatim>\<open>datetime\<close> is an \<open>int\<close>, the number
  of microseconds since the epoch; a \<^verbatim>\<open>dict\<close> of labels is an association list whose
  lookup is \<open>map_of\<close>. Mutable state is passed in and returned. Every read of the clock
  (\<^verbatim>\<open>datetime.utcnow()\<close>) is a value handed to the function that reads it.
\<close>

subsection \<open>Strings and number formatting\<close>

text \<open>\<^verbatim>\<open>str.lower()\<close> on the ASCII letters; every other character is left as it is.\<close>

definition lower_char :: "char \<Rightarrow> char" where
  "lower_char c =
     (case map_of (zip ''ABCDEFGHIJKLMNOPQRSTUVWXYZ'' ''abcdefghijklmnopqrstuvwxyz'') c of
        Some l \<Rightarrow> l
      | None \<Rightarrow> c)"

definition lower :: "string \<Rightarrow> string" where
  "lower s = map lower_char s"

definition digit_char :: "nat \<Rightarrow> char" where
  "digit_char d = ''0123456789'' ! d"

text \<open>Decimal rendering of a natural number and of an integer, as \<^verbatim>\<open>str(n)\<close> gives it.\<close>

function str_nat :: "nat \<Rightarrow> string" where
  "str_nat n = (if n < 10 then [digit_char n] else str_nat (n div 10) @ [digit_char (n mod 10)])"
  by pat_completeness auto
termination
  by (relation "measure id") auto

declare str_nat.simps [simp del]

definition str_int :: "int \<Rightarrow> string" where
  "str_int i = (if i < 0 then ''-'' @ str_nat (nat (- i)) else str_nat (nat i))"

text \<open>Rounding to the nearest integer, ties to the even one (Python's \<^verbatim>\<open>round\<close> and
  the \<^verbatim>\<open>f\<close> format both round this way).\<close>

definition round_half_even :: "real \<Rightarrow> int" where
  "round_half_even x =
     (let f = \<lfloor>x\<rfloor>; d = x - of_int f in
      if d < 1 / 2 then f
      else if 1 / 2 < d then f + 1
      else if even f then f else f + 1)"

text \<open>\<^verbatim>\<open>round(x, ndigits)\<close>.\<close>

definition py_round :: "real \<Rightarrow> nat \<Rightarrow> real" where
  "py_round x ndigits = of_int (round_half_even (x * 10 ^ ndigits)) / 10 ^ ndigits"

text \<open>The format specification \<^verbatim>\<open>{x:.df}\<close>: sign, integer part, and \<open>d\<close> decimals.\<close>

definition format_f :: "nat \<Rightarrow> real \<Rightarrow> string" where
  "format_f d x =
     (let n = nat (round_half_even (\<bar>x\<bar> * 10 ^ d));
          ip = str_nat (n div 10 ^ d);
          fp = str_nat (n mod 10 ^ d)
      in (if x < 0 then ''-'' else '''') @ ip @
         (if d = 0 then '''' else ''.'' @ replicate (d - length fp) (CHR ''0'') @ fp))"

subsection \<open>Time\<close>

type_synonym time = int

text \<open>\<^verbatim>\<open>timedelta(hours=n)\<close> in microseconds.\<close>

definition timedelta_hours :: "int \<Rightarrow> int" where
  "timedelta_hours n = n * 3600000000"

subsection \<open>Safety rules (\<^verbatim>\<open>SafetyRules\<close>)\<close>

text \<open>The configuration read in \<^verbatim>\<open>__init__\<close>.\<close>

record safety_rules =
  blocklist_tags :: "string list"
  confirmation_threshold :: real
  max_actions_per_hour :: int
  dry_run :: bool

text \<open>\<^verbatim>\<open>_action_history\<close>, a \<^verbatim>\<open>defaultdict(list)\<close>: every actor has a list of times, empty
  until something is recorded.\<close>

type_synonym action_history = "string \<Rightarrow> time list"

type_synonym labels = "(string \<times> string) list"

text \<open>\<^verbatim>\<open>d.get(k, default)\<close>.\<close>

definition dict_get :: "labels \<Rightarrow> string \<Rightarrow> string \<Rightarrow> string" where
  "dict_get d k dflt = (case map_of d k of Some v \<Rightarrow> v | None \<Rightarrow> dflt)"

text \<open>The loop of \<^verbatim>\<open>check_blocklist\<close> over the configured tags; \<open>None\<close> when the loop ends
  without returning.\<close>

fun check_tags :: "string list \<Rightarrow> labels \<Rightarrow> (bool \<times> string) option" where
  "check_tags [] resource_labels = None"
| "check_tags (tag # tags) resource_labels =
     (if lower tag \<in> set (map (\<lambda>kv. lower (fst kv)) resource_labels)
      then Some (True, ''Resource has blocklisted label: '' @ tag)
      else if lower tag \<in> set (map (\<lambda>kv. lower (snd kv)) resource_labels)
      then Some (True, ''Resource has blocklisted label value: '' @ tag)
      else check_tags tags resource_labels)"

definition check_blocklist :: "safety_rules \<Rightarrow> labels \<Rightarrow> bool \<times> string" where
  "check_blocklist sr resource_labels =
     (case check_tags (blocklist_tags sr) resource_labels of
        Some r \<Rightarrow> r
      | None \<Rightarrow>
          (let env_label = dict_get resource_labels ''env''
                             (dict_get resource_labels ''environment'' '''')
           in if lower env_label \<in> set [''production'', ''prod'']
              then (True, ''Resource is marked as production environment'')
              else (False, '''')))"

text \<open>\<^verbatim>\<open>check_rate_limit\<close> prunes the actor's entries that are not younger than one hour and
  compares what is left with the limit. It returns the verdict and the pruned history.\<close>

definition check_rate_limit ::
  "safety_rules \<Rightarrow> action_history \<Rightarrow> string \<Rightarrow> time \<Rightarrow> (bool \<times> string) \<times> action_history" where
  "check_rate_limit sr h user_email now =
     (let one_hour_ago = now - timedelta_hours 1;
          h' = h(user_email := filter (\<lambda>t. t > one_hour_ago) (h user_email));
          action_count = length (h' user_email)
      in if int action_count \<ge> max_actions_per_hour sr
         then ((True, ''Rate limit exceeded: '' @ str_nat action_count @ ''/'' @
                      str_int (max_actions_per_hour sr) @ '' actions in the last hour''), h')
         else ((False, ''''), h'))"

definition record_action :: "action_history \<Rightarrow> string \<Rightarrow> time \<Rightarrow> action_history" where
  "record_action h user_email now = h(user_email := h user_email @ [now])"

definition check_high_cost :: "safety_rules \<Rightarrow> real \<Rightarrow> bool \<times> string" where
  "check_high_cost sr estimated_savings =
     (if estimated_savings \<ge> confirmation_threshold sr
      then (True, ''High-cost action: $'' @ format_f 2 estimated_savings @
                  ''/month requires confirmation'')
      else (False, ''''))"

text \<open>The \<^verbatim>\<open>details\<close> dictionary of \<^verbatim>\<open>validate_action\<close>; a key that may be absent is an
  option.\<close>

record safety_details =
  d_dry_run :: bool
  checks_passed :: "string list"
  checks_failed :: "(string \<times> string) list"
  needs_confirmation :: "bool option"
  confirmation_reason :: "string option"
  dry_run_mode :: "bool option"

definition validate_action ::
  "safety_rules \<Rightarrow> action_history \<Rightarrow> string \<Rightarrow> string \<Rightarrow> labels \<Rightarrow> string \<Rightarrow> real \<Rightarrow> time
     \<Rightarrow> (bool \<times> string \<times> safety_details) \<times> action_history" where
  "validate_action sr h action resource_id resource_labels user_email estimated_savings now =
     (let details = \<lparr>d_dry_run = dry_run sr, checks_passed = [], checks_failed = [],
                      needs_confirmation = None, confirmation_reason = None,
                      dry_run_mode = None\<rparr>;
          (is_blocked, reason) = check_blocklist sr resource_labels
      in if is_blocked
         then ((False, reason, details\<lparr>checks_failed := [(''blocklist'', reason)]\<rparr>), h)
         else
           (let details = details\<lparr>checks_passed := [''blocklist'']\<rparr>;
                ((is_limited, reason), h') = check_rate_limit sr h user_email now
            in if is_limited
               then ((False, reason,
                      details\<lparr>checks_failed := [(''rate_limit'', reason)]\<rparr>), h')
               else
                 (let details = details\<lparr>checks_passed := [''blocklist'', ''rate_limit'']\<rparr>;
                      (needs, reason) = check_high_cost sr estimated_savings;
                      details = (if needs
                                 then details\<lparr>needs_confirmation := Some True,
                                              confirmation_reason := Some reason\<rparr>
                                 else details);
                      details = details\<lparr>checks_passed :=
                                          [''blocklist'', ''rate_limit'', ''high_cost'']\<rparr>;
                      details = (if dry_run sr then details\<lparr>dry_run_mode := Some True\<rparr>
                                 else details)
                  in ((True, ''All safety checks passed'', details), h'))))"

text \<open>A caller of \<^verbatim>\<open>validate_action\<close>, for stating what a sequence of calls returns: the
  arguments of one call, and the calls made one after the other on the same history. It
  returns the \<^verbatim>\<open>is_safe\<close> flag of every call, in order.\<close>

record validate_call =
  vc_action :: string
  vc_resource_id :: string
  vc_labels :: labels
  vc_estimated_savings :: real
  vc_now :: time

fun validate_calls ::
  "safety_rules \<Rightarrow> action_history \<Rightarrow> string \<Rightarrow> validate_call list
     \<Rightarrow> bool list \<times> action_history" where
  "validate_calls sr h user_email [] = ([], h)"
| "validate_calls sr h user_email (c # cs) =
     (let ((is_safe, reason, details), h') =
            validate_action sr h (vc_action c) (vc_resource_id c) (vc_labels c) user_email
              (vc_estimated_savings c) (vc_now c);
          (rest, h'') = validate_calls sr h' user_email cs
      in (is_safe # rest, h''))"

subsection \<open>The remediation executor (\<^verbatim>\<open>GCPExecutor\<close>)\<close>

text \<open>What the executor reads of a \<^verbatim>\<open>compute_v1.Instance\<close>: its labels, its status and the
  \<^verbatim>\<open>source\<close> URL of every attached disk.\<close>

record vm_instance =
  inst_labels :: labels
  inst_status :: string
  inst_disks :: "string list"

text \<open>The calls the executor makes on the Compute Engine clients, with their arguments.
  \<open>InstancesStop\<close> and \<open>SnapshotsInsert\<close> change the cloud; the two \<open>Get\<close> calls read it.\<close>

datatype api_call =
    InstancesGet string string string
  | InstancesStop string string string
  | DisksGet string string string
  | SnapshotsInsert string string string string

text \<open>The places where the executor's code reads the clock: in \<^verbatim>\<open>check_rate_limit\<close>, in
  \<^verbatim>\<open>record_action\<close>, and in \<^verbatim>\<open>create_snapshot\<close> for the disk at a position of the
  instance's disk list.\<close>

datatype clock_site = AtRateCheck | AtRecord | AtSnapshot nat

text \<open>The world outside the process. Each client call answers as a function of the calls
  made before it and of its own arguments: an instance or nothing for
  \<^verbatim>\<open>instances_client.get\<close> (\<^verbatim>\<open>get_instance\<close> turns every exception into \<^verbatim>\<open>None\<close>); for
  the others \<open>Inl\<close> the text of the exception raised by the call or by waiting for its
  operation, \<open>Inr\<close> the disk's \<^verbatim>\<open>self_link\<close> or the operation's name. \<open>strftime\<close> renders
  a time as \<^verbatim>\<open>%Y%m%d-%H%M%S\<close>.\<close>

record cloud =
  utcnow :: "clock_site \<Rightarrow> time"
  strftime :: "time \<Rightarrow> string"
  instances_get :: "api_call list \<Rightarrow> api_call \<Rightarrow> vm_instance option"
  instances_stop :: "api_call list \<Rightarrow> api_call \<Rightarrow> string + string"
  disks_get :: "api_call list \<Rightarrow> api_call \<Rightarrow> string + string"
  snapshots_insert :: "api_call list \<Rightarrow> api_call \<Rightarrow> string + string"

text \<open>The state the executor changes: the rate window of the \<^verbatim>\<open>safety_rules\<close> singleton and
  the calls made on the cloud so far, oldest first.\<close>

record world =
  history :: action_history
  calls :: "api_call list"

record executor =
  ex_project_id :: string
  ex_dry_run :: bool

record stop_details =
  sd_action :: string
  sd_instance :: string
  sd_zone :: string
  sd_project :: string
  sd_safety_checks :: "safety_details option"
  sd_dry_run :: "bool option"
  sd_operation_id :: "string option"

record snapshot_details =
  cs_action :: string
  cs_disk :: string
  cs_snapshot_name :: string
  cs_zone :: string
  cs_project :: string
  cs_dry_run :: "bool option"
  cs_operation_id :: "string option"

record snapshot_entry =
  se_disk :: string
  se_success :: bool
  se_message :: string

record snapshot_stop_details =
  ss_action :: string
  ss_instance :: string
  ss_zone :: string
  ss_snapshots :: "snapshot_entry list"
  ss_stop_result :: "stop_details option"

definition get_instance ::
  "executor \<Rightarrow> cloud \<Rightarrow> world \<Rightarrow> string \<Rightarrow> string \<Rightarrow> vm_instance option \<times> world" where
  "get_instance ex env w instance_name zone =
     (let c = InstancesGet (ex_project_id ex) zone instance_name
      in (instances_get env (calls w) c, w\<lparr>calls := calls w @ [c]\<rparr>))"

definition stop_instance ::
  "safety_rules \<Rightarrow> executor \<Rightarrow> cloud \<Rightarrow> world \<Rightarrow> string \<Rightarrow> string \<Rightarrow> string
     \<Rightarrow> (bool \<times> string \<times> stop_details) \<times> world" where
  "stop_instance sr ex env w instance_name zone user_email =
     (let details = \<lparr>sd_action = ''stop_instance'', sd_instance = instance_name,
                      sd_zone = zone, sd_project = ex_project_id ex, sd_safety_checks = None,
                      sd_dry_run = None, sd_operation_id = None\<rparr>;
          (found, w1) = get_instance ex env w instance_name zone
      in case found of
           None \<Rightarrow> ((False, ''Instance not found: '' @ instance_name, details), w1)
         | Some inst \<Rightarrow>
             (let resource_labels = inst_labels inst;
                  ((is_safe, reason, safety), h') =
                     validate_action sr (history w1) ''stop'' instance_name resource_labels
                       user_email 0 (utcnow env AtRateCheck);
                  w2 = w1\<lparr>history := h'\<rparr>;
                  details = details\<lparr>sd_safety_checks := Some safety\<rparr>
              in if \<not> is_safe then ((False, reason, details), w2)
                 else if inst_status inst = ''TERMINATED''
                 then ((True, ''Instance is already stopped'', details), w2)
                 else if ex_dry_run ex
                 then ((True, ''DRY RUN: Would stop instance '' @ instance_name,
                        details\<lparr>sd_dry_run := Some True\<rparr>), w2)
                 else
                   (let c = InstancesStop (ex_project_id ex) zone instance_name;
                        w3 = w2\<lparr>calls := calls w2 @ [c]\<rparr>
                    in case instances_stop env (calls w2) c of
                         Inr operation_name \<Rightarrow>
                           ((True, ''Instance '' @ instance_name @ '' stopped successfully'',
                             details\<lparr>sd_operation_id := Some operation_name\<rparr>),
                            w3\<lparr>history :=
                                  record_action (history w3) user_email (utcnow env AtRecord)\<rparr>)
                       | Inl e \<Rightarrow>
                           ((False, ''Failed to stop instance: '' @ e, details), w3))))"

text \<open>\<^verbatim>\<open>create_snapshot\<close>; \<open>now\<close> is what the clock gives when the snapshot has no name yet.\<close>

definition create_snapshot ::
  "executor \<Rightarrow> cloud \<Rightarrow> world \<Rightarrow> string \<Rightarrow> string \<Rightarrow> string option \<Rightarrow> time
     \<Rightarrow> (bool \<times> string \<times> snapshot_details) \<times> world" where
  "create_snapshot ex env w disk_name zone snapshot_name_arg now =
     (let generated = ''cloudguard-'' @ disk_name @ ''-'' @ strftime env now;
          snapshot_name = (case snapshot_name_arg of
                             None \<Rightarrow> generated
                           | Some n \<Rightarrow> if n = [] then generated else n);
          details = \<lparr>cs_action = ''create_snapshot'', cs_disk = disk_name,
                      cs_snapshot_name = snapshot_name, cs_zone = zone,
                      cs_project = ex_project_id ex, cs_dry_run = None,
                      cs_operation_id = None\<rparr>
      in if ex_dry_run ex
         then ((True, ''DRY RUN: Would create snapshot '' @ snapshot_name,
                details\<lparr>cs_dry_run := Some True\<rparr>), w)
         else
           (let c1 = DisksGet (ex_project_id ex) zone disk_name;
                w1 = w\<lparr>calls := calls w @ [c1]\<rparr>
            in case disks_get env (calls w) c1 of
                 Inl e \<Rightarrow> ((False, ''Failed to create snapshot: '' @ e, details), w1)
               | Inr self_link \<Rightarrow>
                   (let c2 = SnapshotsInsert (ex_project_id ex) snapshot_name self_link
                               (''CloudGuard automatic snapshot of '' @ disk_name);
                        w2 = w1\<lparr>calls := calls w1 @ [c2]\<rparr>
                    in case snapshots_insert env (calls w1) c2 of
                         Inl e \<Rightarrow> ((False, ''Failed to create snapshot: '' @ e, details), w2)
                       | Inr operation_name \<Rightarrow>
                           ((True, ''Snapshot '' @ snapshot_name @ '' created successfully'',
                             details\<lparr>cs_operation_id := Some operation_name\<rparr>), w2))))"

text \<open>\<^verbatim>\<open>s.split("/")[-1]\<close>: what follows the last slash, the whole string when it has
  none.\<close>

definition last_segment :: "string \<Rightarrow> string" where
  "last_segment s = rev (takeWhile (\<lambda>c. c \<noteq> CHR ''/'') (rev s))"

text \<open>The loop of \<^verbatim>\<open>snapshot_and_stop\<close> over \<^verbatim>\<open>instance.disks\<close>, from position \<open>i\<close>, with
  the entries appended to \<^verbatim>\<open>details["snapshots"]\<close> so far. \<open>Some\<close> is the message of the
  early return on a failed snapshot, \<open>None\<close> the end of the loop.\<close>

fun snapshot_disks ::
  "executor \<Rightarrow> cloud \<Rightarrow> string \<Rightarrow> nat \<Rightarrow> string list \<Rightarrow> snapshot_entry list \<Rightarrow> world
     \<Rightarrow> (string option \<times> snapshot_entry list) \<times> world" where
  "snapshot_disks ex env zone i [] snaps w = ((None, snaps), w)"
| "snapshot_disks ex env zone i (source # rest) snaps w =
     (let disk_name = last_segment source;
          ((success, message, snap_details), w') =
             create_snapshot ex env w disk_name zone None (utcnow env (AtSnapshot i));
          snaps' = snaps @ [\<lparr>se_disk = disk_name, se_success = success,
                              se_message = message\<rparr>]
      in if \<not> success
         then ((Some (''Failed to snapshot disk '' @ disk_name @ '': '' @ message), snaps'), w')
         else snapshot_disks ex env zone (Suc i) rest snaps' w')"

definition snapshot_and_stop ::
  "safety_rules \<Rightarrow> executor \<Rightarrow> cloud \<Rightarrow> world \<Rightarrow> string \<Rightarrow> string \<Rightarrow> string
     \<Rightarrow> (bool \<times> string \<times> snapshot_stop_details) \<times> world" where
  "snapshot_and_stop sr ex env w instance_name zone user_email =
     (let details = \<lparr>ss_action = ''snapshot_and_stop'', ss_instance = instance_name,
                      ss_zone = zone, ss_snapshots = [], ss_stop_result = None\<rparr>;
          (found, w1) = get_instance ex env w instance_name zone
      in case found of
           None \<Rightarrow> ((False, ''Instance not found: '' @ instance_name, details), w1)
         | Some inst \<Rightarrow>
             (let ((failed, snaps), w2) = snapshot_disks ex env zone 0 (inst_disks inst) [] w1;
                  details = details\<lparr>ss_snapshots := snaps\<rparr>
              in case failed of
                   Some msg \<Rightarrow> ((False, msg, details), w2)
                 | None \<Rightarrow>
                     (let ((success, message, stop_det), w3) =
                            stop_instance sr ex env w2 instance_name zone user_email;
                          details = details\<lparr>ss_stop_result := Some stop_det\<rparr>
                      in if success
                         then ((True, ''Snapshots created and instance '' @ instance_name @
                                      '' stopped'', details), w3)
                         else ((False, ''Snapshots created but failed to stop: '' @ message,
                                details), w3))))"

text \<open>Readings of a call trace: is a call one that stops an instance; and the disks
  whose snapshot was attempted (\<^verbatim>\<open>create_snapshot\<close> starts every real attempt with
  \<^verbatim>\<open>disks_client.get\<close>), in order.\<close>

fun is_stop_call :: "api_call \<Rightarrow> bool" where
  "is_stop_call (InstancesStop p z n) = True"
| "is_stop_call c = False"

fun attempted_disks :: "api_call list \<Rightarrow> string list" where
  "attempted_disks [] = []"
| "attempted_disks (DisksGet p z d # cs) = d # attempted_disks cs"
| "attempted_disks (c # cs) = attempted_disks cs"

text \<open>The calls made since the trace had \<open>n\<close> entries.\<close>

definition calls_since :: "nat \<Rightarrow> world \<Rightarrow> api_call list" where
  "calls_since n w = drop n (calls w)"

text \<open>What the cloud answered to a call made after the calls \<open>made\<close>: the text of the error
  when the call (or waiting for its operation) raised, nothing when it went through. A
  lookup of an instance never raises past \<^verbatim>\<open>get_instance\<close>.\<close>

fun cloud_error :: "cloud \<Rightarrow> api_call list \<Rightarrow> api_call \<Rightarrow> string option" where
  "cloud_error env made (InstancesGet p z n) = None"
| "cloud_error env made (InstancesStop p z n) =
     (case instances_stop env made (InstancesStop p z n) of Inl e \<Rightarrow> Some e | Inr name \<Rightarrow> None)"
| "cloud_error env made (DisksGet p z d) =
     (case disks_get env made (DisksGet p z d) of Inl e \<Rightarrow> Some e | Inr link \<Rightarrow> None)"
| "cloud_error env made (SnapshotsInsert p n l d) =
     (case snapshots_insert env made (SnapshotsInsert p n l d) of
        Inl e \<Rightarrow> Some e
      | Inr name \<Rightarrow> None)"

text \<open>The calls \<open>cs\<close>, made one after the other after the calls \<open>made\<close>, each with the
  cloud's answer to it.\<close>

fun answers :: "cloud \<Rightarrow> api_call list \<Rightarrow> api_call list \<Rightarrow> (api_call \<times> string option) list" where
  "answers env made [] = []"
| "answers env made (c # cs) = (c, cloud_error env made c) # answers env (made @ [c]) cs"

subsection \<open>The anomaly detector (\<^verbatim>\<open>BaselineTracker\<close>)\<close>

text \<open>One entry of \<^verbatim>\<open>state["daily_spend"]\<close>, and the state; the entries are ordered most
  recent first.\<close>

record daily_spend_item =
  item_date :: string
  day_of_week :: int
  daily_spend :: real

record baseline_state =
  daily_spend_data :: "daily_spend_item list"
  last_updated :: "string option"

text \<open>\<^verbatim>\<open>statistics.mean\<close> and \<^verbatim>\<open>statistics.stdev\<close> (the sample standard deviation). Python
  raises on a list too short for them; \<^verbatim>\<open>detect_anomaly\<close> calls them on three values or
  more only.\<close>

definition mean :: "real list \<Rightarrow> real" where
  "mean xs = sum_list xs / real (length xs)"

definition stdev :: "real list \<Rightarrow> real" where
  "stdev xs = sqrt (sum_list (map (\<lambda>x. (x - mean xs)\<^sup>2) xs) / real (length xs - 1))"

text \<open>The result dictionary of \<^verbatim>\<open>detect_anomaly\<close>; the two early returns have no
  \<^verbatim>\<open>current\<close> and no \<^verbatim>\<open>threshold\<close>.\<close>

record anomaly_verdict =
  is_anomaly :: bool
  severity :: string
  message :: string
  baseline :: real
  current :: "real option"
  deviation_percent :: real
  z_score :: real
  threshold :: "real option"

definition get_anomaly_message :: "bool \<Rightarrow> real \<Rightarrow> string" where
  "get_anomaly_message anomalous deviation =
     (if \<not> anomalous then ''Spending is within normal range''
      else if deviation > 200
      then ''Spending is '' @ format_f 0 deviation @ ''% above normal - investigate immediately''
      else if deviation > 100
      then ''Spending is '' @ format_f 0 deviation @ ''% above normal - significant anomaly''
      else if deviation > 50
      then ''Spending is '' @ format_f 0 deviation @ ''% above normal - moderate anomaly''
      else ''Spending is '' @ format_f 0 deviation @ ''% above normal - minor anomaly'')"

text \<open>\<^verbatim>\<open>detect_anomaly\<close>; \<open>sensitivity\<close> is \<^verbatim>\<open>config.ANOMALY_SENSITIVITY\<close>.\<close>

definition detect_anomaly :: "baseline_state \<Rightarrow> real \<Rightarrow> real \<Rightarrow> anomaly_verdict" where
  "detect_anomaly st sensitivity current_spend =
     (if daily_spend_data st = []
      then \<lparr>is_anomaly = False, severity = ''unknown'',
            message = ''Insufficient baseline data'', baseline = 0, current = None,
            deviation_percent = 0, z_score = 0, threshold = None\<rparr>
      else
        (let daily_spends = map daily_spend (daily_spend_data st);
             recent_spends = take 7 daily_spends
         in if length recent_spends < 3
            then \<lparr>is_anomaly = False, severity = ''unknown'',
                  message = ''Need at least 3 days of data'', baseline = 0, current = None,
                  deviation_percent = 0, z_score = 0, threshold = None\<rparr>
            else
              (let avg_spend = mean recent_spends;
                   std_dev = (if length recent_spends > 1 then stdev recent_spends else 0);
                   z = (if std_dev = 0
                        then (if current_spend > avg_spend then 5 else 0)
                        else (current_spend - avg_spend) / std_dev);
                   anomalous = (z > sensitivity);
                   deviation = (if avg_spend > 0
                                then (current_spend - avg_spend) / avg_spend * 100
                                else 0);
                   sev = (if z > 3 then ''critical''
                          else if z > 5 / 2 then ''high''
                          else if z > 2 then ''medium''
                          else ''low'')
               in \<lparr>is_anomaly = anomalous,
                   severity = (if anomalous then sev else ''normal''),
                   message = get_anomaly_message anomalous deviation,
                   baseline = py_round avg_spend 2,
                   current = Some (py_round current_spend 2),
                   deviation_percent = py_round deviation 1,
                   z_score = py_round z 2,
                   threshold = Some sensitivity\<rparr>)))"

text \<open>A baseline of \<open>n\<close> days that all spent \<open>v\<close>.\<close>

definition constant_baseline :: "nat \<Rightarrow> real \<Rightarrow> baseline_state" where
  "constant_baseline n v =
     \<lparr>daily_spend_data = replicate n \<lparr>item_date = '''', day_of_week = 1, daily_spend = v\<rparr>,
      last_updated = None\<rparr>"

subsection \<open>Action tokens (\<^verbatim>\<open>JWTHandler\<close>)\<close>

text \<open>The payload of a token: the registered claims \<^verbatim>\<open>iat\<close> and \<^verbatim>\<open>exp\<close> (whole seconds
  since the epoch, as a JSON Web Token carries them), \<^verbatim>\<open>jti\<close>, and the custom claims of
  \<^verbatim>\<open>generate_token\<close>.\<close>

record claims =
  c_iat :: int
  c_exp :: int
  c_jti :: string
  c_resource_id :: string
  c_action :: string
  c_project_id :: string
  c_resource_type :: string
  c_estimated_savings :: real
  c_user_email :: "string option"
  c_issued_at :: string

text \<open>A token as the verifier sees it: either the three parts of a signed token (the
  algorithm named in its header, its payload, its signature), or a string that does not
  parse as one.\<close>

datatype 'sig token = Token string claims 'sig | Garbage string

text \<open>The two kinds of failure of \<^verbatim>\<open>jwt.decode\<close> that \<^verbatim>\<open>validate_token\<close> lets through:
  \<^verbatim>\<open>jwt.ExpiredSignatureError\<close>, and every other \<^verbatim>\<open>jwt.InvalidTokenError\<close>.\<close>

datatype jwt_error = ExpiredSignatureError | InvalidTokenError

text \<open>The seconds of a time given in microseconds.\<close>

definition numeric_date :: "time \<Rightarrow> int" where
  "numeric_date t = t div 1000000"

text \<open>Modelled from the spec: \<^verbatim>\<open>jwt.encode\<close> and \<^verbatim>\<open>jwt.decode\<close> belong to the JWT library
  that \<^verbatim>\<open>jwt_handler.py\<close> imports, which is not among the source files. The specification
  has the token as a serialized payload with a symmetric signature over it under the
  server's secret, the verifier checking signature integrity and the standard expiry
  claim: a signature mismatch or a malformed token is \<open>Invalid\<close>, a token that verifies
  but whose time has elapsed is \<open>Expired\<close>. The keyed hash is the parameter \<open>hm\<close>; the
  signature covers the header's algorithm and the payload. The verifier accepts only the
  algorithms it is given, checks the signature before any claim, refuses a token issued in
  the future (\<^verbatim>\<open>iat\<close>), and takes a token as expired from the second \<^verbatim>\<open>exp\<close> on.\<close>

definition jwt_encode ::
  "(string \<Rightarrow> string \<times> claims \<Rightarrow> 'sig) \<Rightarrow> claims \<Rightarrow> string \<Rightarrow> string \<Rightarrow> 'sig token" where
  "jwt_encode hm payload key alg = Token alg payload (hm key (alg, payload))"

definition jwt_decode ::
  "(string \<Rightarrow> string \<times> claims \<Rightarrow> 'sig) \<Rightarrow> 'sig token \<Rightarrow> string \<Rightarrow> string list \<Rightarrow> time
     \<Rightarrow> jwt_error + claims" where
  "jwt_decode hm tok key algorithms now =
     (case tok of
        Garbage s \<Rightarrow> Inl InvalidTokenError
      | Token alg payload sig \<Rightarrow>
          if alg \<notin> set algorithms then Inl InvalidTokenError
          else if sig \<noteq> hm key (alg, payload) then Inl InvalidTokenError
          else if c_iat payload * 1000000 > now then Inl InvalidTokenError
          else if c_exp payload * 1000000 \<le> now then Inl ExpiredSignatureError
          else Inr payload)"

text \<open>The handler after \<^verbatim>\<open>__init__\<close>: the configured secret, or a generated one when none
  is configured; the algorithm is always HS256.\<close>

record jwt_handler =
  secret :: string
  algorithm :: string
  expiry_hours :: int

definition init_jwt_handler :: "string \<Rightarrow> int \<Rightarrow> string \<Rightarrow> jwt_handler" where
  "init_jwt_handler configured_secret configured_hours generated_secret =
     \<lparr>secret = (if configured_secret = [] then generated_secret else configured_secret),
      algorithm = ''HS256'',
      expiry_hours = configured_hours\<rparr>"

text \<open>\<^verbatim>\<open>generate_token\<close>. \<open>now\<close> is the clock, \<open>jti\<close> the random identifier drawn by
  \<^verbatim>\<open>secrets.token_urlsafe\<close>, \<open>isoformat\<close> the rendering of a time by
  \<^verbatim>\<open>datetime.isoformat\<close>.\<close>

definition generate_token ::
  "(string \<Rightarrow> string \<times> claims \<Rightarrow> 'sig) \<Rightarrow> (time \<Rightarrow> string) \<Rightarrow> jwt_handler \<Rightarrow> time \<Rightarrow> string
     \<Rightarrow> string \<Rightarrow> string \<Rightarrow> string \<Rightarrow> string \<Rightarrow> real \<Rightarrow> string option \<Rightarrow> 'sig token" where
  "generate_token hm isoformat jh now jti resource_id action project_id resource_type
       estimated_savings user_email =
     (let expiry = now + timedelta_hours (expiry_hours jh);
          payload = \<lparr>c_iat = numeric_date now, c_exp = numeric_date expiry, c_jti = jti,
                      c_resource_id = resource_id, c_action = action,
                      c_project_id = project_id, c_resource_type = resource_type,
                      c_estimated_savings = estimated_savings, c_user_email = user_email,
                      c_issued_at = isoformat now\<rparr>
      in jwt_encode hm payload (secret jh) (algorithm jh))"

text \<open>\<^verbatim>\<open>validate_token\<close> logs and raises again whatever \<^verbatim>\<open>jwt.decode\<close> raised.\<close>

definition validate_token ::
  "(string \<Rightarrow> string \<times> claims \<Rightarrow> 'sig) \<Rightarrow> jwt_handler \<Rightarrow> 'sig token \<Rightarrow> time
     \<Rightarrow> jwt_error + claims" where
  "validate_token hm jh tok now = jwt_decode hm tok (secret jh) [algorithm jh] now"

text \<open>What \<^verbatim>\<open>execute_action\<close> (\<^verbatim>\<open>src/api/main.py\<close>) answers when the token does not validate:
  the title of the error page and the status code.\<close>

fun token_error_response :: "jwt_error \<Rightarrow> string \<times> nat" where
  "token_error_response ExpiredSignatureError = (''Token Expired'', 401)"
| "token_error_response InvalidTokenError = (''Invalid Token'', 401)"

subsection \<open>Concrete inputs\<close>

text \<open>Inputs at which the definitions are evaluated below. The default configuration of
  \<^verbatim>\<open>config.py\<close> has the tags \<^verbatim>\<open>production,prod,critical\<close>, a limit of three actions per
  hour and a confirmation threshold of 100.\<close>

definition default_tags :: "string list" where
  "default_tags = [''production'', ''prod'', ''critical'']"

definition example_rules :: "string list \<Rightarrow> int \<Rightarrow> bool \<Rightarrow> safety_rules" where
  "example_rules tags limit dry =
     \<lparr>blocklist_tags = tags, confirmation_threshold = 100, max_actions_per_hour = limit,
      dry_run = dry\<rparr>"

definition no_history :: action_history where
  "no_history = (\<lambda>actor. [])"

definition stop_call_at :: "time \<Rightarrow> validate_call" where
  "stop_call_at t =
     \<lparr>vc_action = ''stop'', vc_resource_id = ''vm-1'', vc_labels = [],
      vc_estimated_savings = 0, vc_now = t\<rparr>"

definition example_executor :: "bool \<Rightarrow> executor" where
  "example_executor dry = \<lparr>ex_project_id = ''proj'', ex_dry_run = dry\<rparr>"

definition example_vm :: "labels \<Rightarrow> string list \<Rightarrow> vm_instance" where
  "example_vm ls disks = \<lparr>inst_labels = ls, inst_status = ''RUNNING'', inst_disks = disks\<rparr>"

fun disk_of_call :: "api_call \<Rightarrow> string" where
  "disk_of_call (DisksGet p z d) = d"
| "disk_of_call c = []"

text \<open>A cloud that always finds the given instance, stops it when asked, and snapshots
  every disk but the ones listed as broken.\<close>

definition example_cloud :: "vm_instance \<Rightarrow> string list \<Rightarrow> cloud" where
  "example_cloud vm broken =
     \<lparr>utcnow = (\<lambda>site. 1700000000000000),
      strftime = (\<lambda>t. ''20231114-221320''),
      instances_get = (\<lambda>made c. Some vm),
      instances_stop = (\<lambda>made c. Inr ''operation-stop''),
      disks_get = (\<lambda>made c. if disk_of_call c \<in> set broken then Inl ''disk unavailable''
                              else Inr (''link/'' @ disk_of_call c)),
      snapshots_insert = (\<lambda>made c. Inr ''operation-snapshot'')\<rparr>"

text \<open>The same cloud, except that it refuses every stop.\<close>

definition example_cloud_refusing_stop :: "vm_instance \<Rightarrow> cloud" where
  "example_cloud_refusing_stop vm =
     (example_cloud vm [])\<lparr>instances_stop := (\<lambda>made c. Inl ''quota exceeded'')\<rparr>"

definition fresh_world :: world where
  "fresh_world = \<lparr>history = no_history, calls = []\<rparr>"

definition example_handler :: jwt_handler where
  "example_handler = init_jwt_handler ''server-secret'' 4 []"

text \<open>An ideal keyed hash: the signature is the key together with what was signed.\<close>

definition example_hmac :: "string \<Rightarrow> string \<times> claims \<Rightarrow> string \<times> string \<times> claims" where
  "example_hmac key signed = (key, signed)"

definition example_isoformat :: "time \<Rightarrow> string" where
  "example_isoformat t = ''2023-11-14T22:13:20.500000''"

definition example_claims :: "int \<Rightarrow> int \<Rightarrow> claims" where
  "example_claims issued expires =
     \<lparr>c_iat = issued, c_exp = expires, c_jti = ''id-1'', c_resource_id = ''vm-1'',
      c_action = ''stop'', c_project_id = ''proj'', c_resource_type = ''instance'',
      c_estimated_savings = 25 / 2, c_user_email = Some ''ops@example.com'',
      c_issued_at = ''2023-11-14T22:13:20.500000''\<rparr>"

section \<open>Properties\<close>

subsection \<open>Safety rules\<close>

lemmas safety_eval =
  validate_action_def check_rate_limit_def check_high_cost_def check_blocklist_def
  dict_get_def lower_def lower_char_def timedelta_hours_def record_action_def
  example_rules_def default_tags_def no_history_def stop_call_at_def

lemma validate_action_history:
  "snd (validate_action sr h a r ls u s now) = h \<or>
   snd (validate_action sr h a r ls u s now) =
     h(u := filter (\<lambda>t. t > now - timedelta_hours 1) (h u))"
  by (simp add: validate_action_def check_rate_limit_def Let_def split: prod.splits)

lemma validate_action_allowed_history:
  "fst (fst (validate_action sr h a r ls u s now)) \<Longrightarrow>
   snd (validate_action sr h a r ls u s now) =
     h(u := filter (\<lambda>t. t > now - timedelta_hours 1) (h u))"
  by (simp add: validate_action_def check_rate_limit_def Let_def
      split: prod.splits if_splits)

lemma validate_action_allowed_iff:
  "fst (fst (validate_action sr h a r ls u s now)) \<longleftrightarrow>
     \<not> fst (check_blocklist sr ls) \<and>
     int (length (filter (\<lambda>t. t > now - timedelta_hours 1) (h u))) < max_actions_per_hour sr"
  by (auto simp add: validate_action_def check_rate_limit_def Let_def split: prod.splits)

lemma validate_action_empty_stays:
  "h u = [] \<Longrightarrow> snd (validate_action sr h a r ls u s now) u = []"
  using validate_action_history [of sr h a r ls u s now] by auto

lemma validate_calls_all_allowed:
  "h u = [] \<Longrightarrow> 0 < max_actions_per_hour sr \<Longrightarrow>
   \<forall>c\<in>set cs. \<not> fst (check_blocklist sr (vc_labels c)) \<Longrightarrow>
   fst (validate_calls sr h u cs) = replicate (length cs) True"
proof (induction cs arbitrary: h)
  case Nil
  then show ?case by simp
next
  case (Cons c cs)
  let ?r = "validate_action sr h (vc_action c) (vc_resource_id c) (vc_labels c) u
              (vc_estimated_savings c) (vc_now c)"
  have e: "snd ?r u = []"
    using Cons.prems(1) by (rule validate_action_empty_stays)
  have ok: "fst (fst ?r)"
    using Cons.prems by (simp add: validate_action_allowed_iff)
  have ih: "fst (validate_calls sr (snd ?r) u cs) = replicate (length cs) True"
    using Cons.IH [of "snd ?r"] e Cons.prems(2,3) by simp
  show ?case
    using ok ih by (simp add: split_beta Let_def)
qed

text \<open>
  \<^bold>\<open>C6\<close> (the code departs from the claim). The claim: a resource with a label \<^verbatim>\<open>env\<close> or
  \<^verbatim>\<open>environment\<close> whose value is \<^verbatim>\<open>production\<close> or \<^verbatim>\<open>prod\<close> is blocked whatever the
  configured tag list. \<^verbatim>\<open>check_blocklist\<close> reads \<^verbatim>\<open>environment\<close> only as the default of the
  lookup of \<^verbatim>\<open>env\<close>: on a resource labelled \<^verbatim>\<open>env=dev\<close> and \<^verbatim>\<open>environment=production\<close>,
  with the tag list \<^verbatim>\<open>critical\<close>, the check does not block and \<^verbatim>\<open>validate_action\<close>
  allows the stop.
\<close>

theorem c6_env_label_shadows_environment_label:
  "check_blocklist (example_rules [''critical''] 3 False)
     [(''env'', ''dev''), (''environment'', ''production'')] = (False, []) \<and>
   fst (fst (validate_action (example_rules [''critical''] 3 False) no_history ''stop'' ''vm-1''
               [(''env'', ''dev''), (''environment'', ''production'')] ''ops@example.com'' 0
               1700000000000000)) = True"
  by (simp add: safety_eval)

text \<open>
  \<^bold>\<open>C7\<close>, the claim as stated fails: \<^verbatim>\<open>validate_action\<close> records nothing, so four calls in
  a row for one actor, with the limit at three and nothing recorded in between, are all
  allowed, the fourth too.
\<close>

theorem c7_fourth_validate_call_allowed:
  "fst (validate_calls (example_rules default_tags 3 False) no_history ''ops@example.com''
         [stop_call_at 1000000, stop_call_at 2000000, stop_call_at 3000000,
          stop_call_at 4000000]) = [True, True, True, True]"
  by (simp add: safety_eval)

text \<open>
  \<^bold>\<open>C7\<close>, amended. With the limit at three, once three actions have been recorded for an
  actor by \<^verbatim>\<open>record_action\<close> (at \<open>t1 \<le> t2 \<le> t3\<close>) and all three are younger than one hour,
  a \<^verbatim>\<open>validate_action\<close> call for that actor on a resource the blocklist lets through
  returns not allowed, with the reason reporting \<^verbatim>\<open>3/3\<close>, and leaves the window as it is;
  a later call made when one hour or more has passed since the earliest recorded action
  returns allowed.
\<close>

theorem c7_rate_limit_after_three_recorded_actions:
  assumes m: "max_actions_per_hour sr = 3"
    and nb: "\<not> fst (check_blocklist sr ls)"
    and h0: "h0 user = []"
    and w: "now - timedelta_hours 1 < t1" "t1 \<le> t2" "t2 \<le> t3"
    and l: "t1 + timedelta_hours 1 \<le> later"
  shows "(let h3 = record_action (record_action (record_action h0 user t1) user t2) user t3;
              ((allowed, reason, details), h4) = validate_action sr h3 a r ls user s now;
              ((allowed', reason', details'), h5) =
                 validate_action sr h4 a' r' ls user s' later
          in \<not> allowed \<and> reason = ''Rate limit exceeded: 3/3 actions in the last hour'' \<and>
             h4 = h3 \<and> allowed')"
proof -
  define h3 where "h3 = record_action (record_action (record_action h0 user t1) user t2) user t3"
  have h3u: "h3 user = [t1, t2, t3]"
    by (simp add: h3_def record_action_def h0)
  have f: "filter (\<lambda>t. t > now - timedelta_hours 1) (h3 user) = [t1, t2, t3]"
    using w by (simp add: h3u)
  have keep: "h3(user := [t1, t2, t3]) = h3"
    using h3u by auto
  have r1: "validate_action sr h3 a r ls user s now =
     ((False, ''Rate limit exceeded: 3/3 actions in the last hour'',
       \<lparr>d_dry_run = dry_run sr, checks_passed = [''blocklist''],
        checks_failed = [(''rate_limit'', ''Rate limit exceeded: 3/3 actions in the last hour'')],
        needs_confirmation = None, confirmation_reason = None, dry_run_mode = None\<rparr>), h3)"
    using nb m f keep h3u
    by (simp add: validate_action_def check_rate_limit_def Let_def split_beta str_nat.simps
        str_int_def digit_char_def)
  have "\<not> (later - timedelta_hours 1 < t1)"
    using l by simp
  then have "length (filter (\<lambda>t. t > later - timedelta_hours 1) (h3 user)) \<le> 2"
    by (simp add: h3u)
  then have r2: "fst (fst (validate_action sr h3 a' r' ls user s' later))"
    using nb m by (simp add: validate_action_allowed_iff)
  show ?thesis
    unfolding h3_def [symmetric] Let_def using r1 r2 by (simp add: split_beta)
qed

text \<open>A run of the amended \<^bold>\<open>C7\<close>: three actions recorded at seconds 1, 2 and 3, a call at
  second 4 is refused, a call one hour after the first action is allowed.\<close>

theorem c7_rate_limit_after_three_recorded_actions_witness:
  "fst (fst (validate_action (example_rules default_tags 3 False)
               (record_action (record_action (record_action no_history ''ops@example.com''
                  1000000) ''ops@example.com'' 2000000) ''ops@example.com'' 3000000)
               ''stop'' ''vm-1'' [] ''ops@example.com'' 0 4000000)) = False \<and>
   fst (snd (fst (validate_action (example_rules default_tags 3 False)
               (record_action (record_action (record_action no_history ''ops@example.com''
                  1000000) ''ops@example.com'' 2000000) ''ops@example.com'' 3000000)
               ''stop'' ''vm-1'' [] ''ops@example.com'' 0 4000000))) =
     ''Rate limit exceeded: 3/3 actions in the last hour'' \<and>
   fst (fst (validate_action (example_rules default_tags 3 False)
               (record_action (record_action (record_action no_history ''ops@example.com''
                  1000000) ''ops@example.com'' 2000000) ''ops@example.com'' 3000000)
               ''stop'' ''vm-1'' [] ''ops@example.com'' 0 3601000000)) = True"
proof -
  have m: "max_actions_per_hour (example_rules default_tags 3 False) = 3"
    by (simp add: example_rules_def)
  have nb: "\<not> fst (check_blocklist (example_rules default_tags 3 False) [])"
    by (simp add: safety_eval)
  have h0: "no_history ''ops@example.com'' = []"
    by (simp add: no_history_def)
  have w: "(4000000::int) - timedelta_hours 1 < 1000000" "(1000000::int) \<le> 2000000"
    "(2000000::int) \<le> 3000000"
    by (simp_all add: timedelta_hours_def)
  have l: "(1000000::int) + timedelta_hours 1 \<le> 3601000000"
    by (simp add: timedelta_hours_def)
  from c7_rate_limit_after_three_recorded_actions
         [where sr = "example_rules default_tags 3 False" and ls = "[]" and ?h0.0 = no_history
            and user = "''ops@example.com''" and now = 4000000 and ?t1.0 = 1000000
            and ?t2.0 = 2000000 and ?t3.0 = 3000000 and later = 3601000000
            and a = "''stop''" and r = "''vm-1''" and s = 0
            and a' = "''stop''" and r' = "''vm-1''" and s' = 0, OF m nb h0 w l]
  show ?thesis
    by (auto simp add: Let_def split_beta)
qed

text \<open>
  \<^bold>\<open>C10\<close>, the claim as stated fails in its second half: with the limit configured as 0,
  a call for an actor with nothing recorded, on a resource with no label, is refused.
\<close>

theorem c10_zero_limit_refuses_first_call:
  "no_history ''ops@example.com'' = [] \<and>
   check_blocklist (example_rules default_tags 0 False) [] = (False, []) \<and>
   fst (validate_calls (example_rules default_tags 0 False) no_history ''ops@example.com''
         [stop_call_at 1000000]) = [False]"
  by (simp add: safety_eval str_nat.simps str_int_def digit_char_def)

text \<open>
  \<^bold>\<open>C10\<close>, amended. \<^verbatim>\<open>validate_action\<close> never adds an entry to a rate window: the history
  it leaves is the one it found, or that one with the actor's entries of one hour or
  older removed; \<^verbatim>\<open>record_action\<close> is what appends. Consequently, when the limit is at
  least 1, any number of consecutive \<^verbatim>\<open>validate_action\<close> calls for an actor with no
  recorded action, on resources the blocklist lets through, all return allowed.
\<close>

theorem c10_validate_action_never_records:
  "(snd (validate_action sr h a r ls u s now) = h \<or>
    snd (validate_action sr h a r ls u s now) =
      h(u := filter (\<lambda>t. t > now - timedelta_hours 1) (h u))) \<and>
   record_action h u now u = h u @ [now] \<and>
   (h u = [] \<and> 0 < max_actions_per_hour sr \<and>
    (\<forall>c\<in>set cs. \<not> fst (check_blocklist sr (vc_labels c))) \<longrightarrow>
      fst (validate_calls sr h u cs) = replicate (length cs) True)"
  using validate_action_history [of sr h a r ls u s now]
    validate_calls_all_allowed [of h u sr cs]
  by (simp add: record_action_def)

text \<open>A run of the amended \<^bold>\<open>C10\<close>: five calls in a row under the default limit of three,
  all allowed, and the history of the actor still empty after the first.\<close>

theorem c10_validate_action_never_records_witness:
  "fst (validate_calls (example_rules default_tags 3 False) no_history ''ops@example.com''
         [stop_call_at 1000000, stop_call_at 2000000, stop_call_at 3000000,
          stop_call_at 4000000, stop_call_at 5000000]) = [True, True, True, True, True] \<and>
   snd (validate_action (example_rules default_tags 3 False) no_history ''stop'' ''vm-1'' []
          ''ops@example.com'' 0 1000000) ''ops@example.com'' = []"
proof -
  have nb: "\<forall>c\<in>set [stop_call_at 1000000, stop_call_at 2000000, stop_call_at 3000000,
                      stop_call_at 4000000, stop_call_at 5000000].
              \<not> fst (check_blocklist (example_rules default_tags 3 False) (vc_labels c))"
    by (simp add: safety_eval)
  have pre: "no_history ''ops@example.com'' = [] \<and>
             0 < max_actions_per_hour (example_rules default_tags 3 False)"
    by (simp add: no_history_def example_rules_def)
  from c10_validate_action_never_records
         [of "example_rules default_tags 3 False" no_history "''stop''" "''vm-1''" "[]"
            "''ops@example.com''" 0 1000000
            "[stop_call_at 1000000, stop_call_at 2000000, stop_call_at 3000000,
              stop_call_at 4000000, stop_call_at 5000000]"]
    nb pre
  show ?thesis
    by (auto simp add: no_history_def numeral_eq_Suc)
qed

subsection \<open>The remediation executor\<close>

lemmas executor_eval =
  stop_instance_def snapshot_and_stop_def get_instance_def create_snapshot_def
  last_segment_def Let_def example_executor_def example_vm_def example_cloud_def
  fresh_world_def safety_eval

lemma attempted_disks_append:
  "attempted_disks (xs @ ys) = attempted_disks xs @ attempted_disks ys"
  by (induction xs rule: attempted_disks.induct) simp_all

lemma get_instance_effect:
  "get_instance ex env w n z =
     (instances_get env (calls w) (InstancesGet (ex_project_id ex) z n),
      w\<lparr>calls := calls w @ [InstancesGet (ex_project_id ex) z n]\<rparr>)"
  by (simp add: get_instance_def Let_def)

text \<open>One \<^verbatim>\<open>create_snapshot\<close> leaves the rate windows alone, makes no stop call, and
  outside dry-run mode attempts exactly its own disk.\<close>

lemma create_snapshot_effect:
  assumes "create_snapshot ex env w d zone arg now = ((ok, m, det), w')"
  shows "history w' = history w \<and>
         (\<exists>cs. calls w' = calls w @ cs \<and> (\<forall>c\<in>set cs. \<not> is_stop_call c) \<and>
               (if ex_dry_run ex then cs = [] \<and> ok else attempted_disks cs = [d]))"
  using assms
  by (auto simp: create_snapshot_def Let_def split: if_splits sum.splits)

text \<open>The loop: the entries it appends are for a prefix of the disks, every entry but a
  failed last one is a success, and the disks attempted on the cloud are the disks of the
  entries.\<close>

lemma snapshot_disks_effect:
  assumes "snapshot_disks ex env zone i disks snaps w = ((res, snaps'), w')"
  shows "history w' = history w \<and>
         (\<exists>new cs. snaps' = snaps @ new \<and> calls w' = calls w @ cs \<and>
            (\<forall>c\<in>set cs. \<not> is_stop_call c) \<and>
            (\<not> ex_dry_run ex \<longrightarrow> attempted_disks cs = map se_disk new) \<and>
            length new \<le> length disks \<and>
            map se_disk new = map last_segment (take (length new) disks) \<and>
            (case res of
               None \<Rightarrow> (\<forall>e\<in>set new. se_success e) \<and> length new = length disks
             | Some msg \<Rightarrow> new \<noteq> [] \<and> (\<forall>e\<in>set (butlast new). se_success e) \<and>
                  \<not> se_success (last new) \<and>
                  msg = ''Failed to snapshot disk '' @ se_disk (last new) @ '': '' @
                        se_message (last new)))"
  using assms
proof (induction disks arbitrary: i snaps w)
  case Nil
  then show ?case by auto
next
  case (Cons source rest)
  obtain ok m sdet w1 where cs:
    "create_snapshot ex env w (last_segment source) zone None (utcnow env (AtSnapshot i)) =
       ((ok, m, sdet), w1)"
    by (metis prod_cases3 surj_pair)
  let ?e = "\<lparr>se_disk = last_segment source, se_success = ok, se_message = m\<rparr>"
  from create_snapshot_effect [OF cs]
  obtain cs1 where h1: "history w1 = history w" and c1: "calls w1 = calls w @ cs1"
    and ns1: "\<forall>c\<in>set cs1. \<not> is_stop_call c"
    and a1: "if ex_dry_run ex then cs1 = [] \<and> ok
             else attempted_disks cs1 = [last_segment source]"
    by blast
  show ?case
  proof (cases ok)
    case False
    with Cons.prems cs have r:
      "res = Some (''Failed to snapshot disk '' @ last_segment source @ '': '' @ m)"
      "snaps' = snaps @ [?e]" "w' = w1"
      by (simp_all add: Let_def)
    have nd: "\<not> ex_dry_run ex"
      using a1 False by (auto split: if_splits)
    show ?thesis
      apply (rule conjI)
      using r h1 apply simp
      apply (rule exI [where x = "[?e]"])
      apply (rule exI [where x = cs1])
      using r c1 ns1 a1 nd False by simp
  next
    case True
    with Cons.prems cs have rec:
      "snapshot_disks ex env zone (Suc i) rest (snaps @ [?e]) w1 = ((res, snaps'), w')"
      by (simp add: Let_def)
    from Cons.IH [OF rec]
    obtain new cs2 where h2: "history w' = history w1"
      and s2: "snaps' = (snaps @ [?e]) @ new" and c2: "calls w' = calls w1 @ cs2"
      and ns2: "\<forall>c\<in>set cs2. \<not> is_stop_call c"
      and a2: "\<not> ex_dry_run ex \<longrightarrow> attempted_disks cs2 = map se_disk new"
      and l2: "length new \<le> length rest"
      and m2: "map se_disk new = map last_segment (take (length new) rest)"
      and r2: "case res of
               None \<Rightarrow> (\<forall>e\<in>set new. se_success e) \<and> length new = length rest
             | Some msg \<Rightarrow> new \<noteq> [] \<and> (\<forall>e\<in>set (butlast new). se_success e) \<and>
                  \<not> se_success (last new) \<and>
                  msg = ''Failed to snapshot disk '' @ se_disk (last new) @ '': '' @
                        se_message (last new)"
      by blast
    show ?thesis
      apply (rule conjI)
      using h1 h2 apply simp
      apply (rule exI [where x = "?e # new"])
      apply (rule exI [where x = "cs1 @ cs2"])
      using s2 c1 c2 ns1 ns2 a1 a2 l2 m2 r2 True
      by (auto simp: attempted_disks_append split: option.splits if_splits)
  qed
qed

text \<open>In dry-run mode no snapshot fails, so the loop runs to its end.\<close>

lemma snapshot_disks_dry_run:
  "ex_dry_run ex \<Longrightarrow> fst (fst (snapshot_disks ex env zone i disks snaps w)) = None"
  by (induction disks arbitrary: i snaps w) (auto simp: create_snapshot_def Let_def)

text \<open>
  \<^bold>\<open>C1\<close> (the code departs from the claim). The claim: a snapshot request on a resource
  whose labels fail a blocking check is blocked before any external mutation, with no
  disk-snapshot call and no stop call. \<^verbatim>\<open>snapshot_and_stop\<close> runs no policy check of its
  own: it snapshots every disk first, and the check runs only inside \<^verbatim>\<open>stop_instance\<close>.
  On an instance labelled \<^verbatim>\<open>env=production\<close> with one disk, under the default
  configuration and outside dry-run mode, the snapshot is inserted, then the stop is
  refused by the blocklist.
\<close>

theorem c1_snapshot_inserted_before_policy_check:
  "fst (fst (snapshot_and_stop (example_rules default_tags 3 False) (example_executor False)
      (example_cloud (example_vm [(''env'', ''production'')] [''zones/z/disks/disk-1'']) [])
      fresh_world ''vm-1'' ''z'' ''ops@example.com'')) = False \<and>
   fst (snd (fst (snapshot_and_stop (example_rules default_tags 3 False)
      (example_executor False)
      (example_cloud (example_vm [(''env'', ''production'')] [''zones/z/disks/disk-1'']) [])
      fresh_world ''vm-1'' ''z'' ''ops@example.com''))) =
     ''Snapshots created but failed to stop: Resource has blocklisted label value: production'' \<and>
   calls (snd (snapshot_and_stop (example_rules default_tags 3 False) (example_executor False)
      (example_cloud (example_vm [(''env'', ''production'')] [''zones/z/disks/disk-1'']) [])
      fresh_world ''vm-1'' ''z'' ''ops@example.com'')) =
     [InstancesGet ''proj'' ''z'' ''vm-1'',
      DisksGet ''proj'' ''z'' ''disk-1'',
      SnapshotsInsert ''proj'' ''cloudguard-disk-1-20231114-221320'' ''link/disk-1''
        ''CloudGuard automatic snapshot of disk-1'',
      InstancesGet ''proj'' ''z'' ''vm-1'']"
  by (simp add: executor_eval)

text \<open>
  \<^bold>\<open>C2\<close>, the claim as stated fails: in dry-run mode \<^verbatim>\<open>stop_instance\<close> returns its simulated
  success before the line that calls \<^verbatim>\<open>record_action\<close>. After a simulated stop by an actor
  with an empty window, the window is still empty.
\<close>

theorem c2_dry_run_stop_leaves_window_empty:
  "fst (fst (stop_instance (example_rules default_tags 3 True) (example_executor True)
      (example_cloud (example_vm [] []) []) fresh_world ''vm-1'' ''z'' ''ops@example.com'')) =
     True \<and>
   fst (snd (fst (stop_instance (example_rules default_tags 3 True) (example_executor True)
      (example_cloud (example_vm [] []) []) fresh_world ''vm-1'' ''z'' ''ops@example.com''))) =
     ''DRY RUN: Would stop instance vm-1'' \<and>
   history (snd (stop_instance (example_rules default_tags 3 True) (example_executor True)
      (example_cloud (example_vm [] []) []) fresh_world ''vm-1'' ''z'' ''ops@example.com''))
     ''ops@example.com'' = []"
  by (simp add: executor_eval)

text \<open>
  \<^bold>\<open>C2\<close>, amended. In dry-run mode, a stop action that completes as a success makes no
  external call but the lookup of the instance, and is not recorded into the actor's rate
  window: afterwards the window holds the entries it had that are younger than one hour
  (the pruning of the policy check), and nothing more; dry-run completions do not count
  toward the per-hour rate limit.
\<close>

theorem c2_dry_run_stop_not_recorded:
  assumes dry: "ex_dry_run ex"
    and run: "stop_instance sr ex env w name zone user = ((True, msg, det), w')"
  shows "history w' =
           (history w)(user := filter (\<lambda>t. t > utcnow env AtRateCheck - timedelta_hours 1)
                                 (history w user)) \<and>
         calls w' = calls w @ [InstancesGet (ex_project_id ex) zone name]"
proof (cases "instances_get env (calls w) (InstancesGet (ex_project_id ex) zone name)")
  case None
  with run show ?thesis
    by (simp add: stop_instance_def get_instance_effect Let_def)
next
  case (Some inst)
  let ?w1 = "w\<lparr>calls := calls w @ [InstancesGet (ex_project_id ex) zone name]\<rparr>"
  obtain safe reason sdet h' where v:
    "validate_action sr (history w) ''stop'' name (inst_labels inst) user 0
       (utcnow env AtRateCheck) = ((safe, reason, sdet), h')"
    by (metis prod_cases3 surj_pair)
  have safe: "safe"
    using run Some v dry
    by (auto simp add: stop_instance_def get_instance_effect Let_def split: if_splits)
  have h': "h' = (history w)(user :=
               filter (\<lambda>t. t > utcnow env AtRateCheck - timedelta_hours 1) (history w user))"
    using validate_action_allowed_history
            [of sr "history w" "''stop''" name "inst_labels inst" user 0
               "utcnow env AtRateCheck"] v safe
    by simp
  have "w' = ?w1\<lparr>history := h'\<rparr>"
    using run Some v dry safe
    by (auto simp add: stop_instance_def get_instance_effect Let_def split: if_splits)
  then show ?thesis
    using h' by simp
qed

text \<open>A run of the amended \<^bold>\<open>C2\<close>: a simulated stop by an actor who has one action on
  record, 30 minutes old; the record is kept and nothing is added.\<close>

theorem c2_dry_run_stop_not_recorded_witness:
  "history (snd (stop_instance (example_rules default_tags 3 True) (example_executor True)
      (example_cloud (example_vm [] []) [])
      (fresh_world\<lparr>history := record_action no_history ''ops@example.com'' 1699998200000000\<rparr>)
      ''vm-1'' ''z'' ''ops@example.com'')) ''ops@example.com'' = [1699998200000000] \<and>
   calls (snd (stop_instance (example_rules default_tags 3 True) (example_executor True)
      (example_cloud (example_vm [] []) [])
      (fresh_world\<lparr>history := record_action no_history ''ops@example.com'' 1699998200000000\<rparr>)
      ''vm-1'' ''z'' ''ops@example.com'')) = [InstancesGet ''proj'' ''z'' ''vm-1'']"
proof -
  let ?w = "fresh_world\<lparr>history := record_action no_history ''ops@example.com'' 1699998200000000\<rparr>"
  let ?run = "stop_instance (example_rules default_tags 3 True) (example_executor True)
      (example_cloud (example_vm [] []) []) ?w ''vm-1'' ''z'' ''ops@example.com''"
  have dry: "ex_dry_run (example_executor True)"
    by (simp add: example_executor_def)
  have ok: "fst (fst ?run) = True"
    by (simp add: executor_eval)
  then have run: "?run = ((True, fst (snd (fst ?run)), snd (snd (fst ?run))), snd ?run)"
    by (simp only: prod_eq_iff fst_conv snd_conv simp_thms)
  from c2_dry_run_stop_not_recorded [OF dry run]
  show ?thesis
    by (simp add: example_cloud_def example_executor_def fresh_world_def record_action_def
        no_history_def timedelta_hours_def)
qed

lemma answers_append:
  "answers env made (xs @ ys) = answers env made xs @ answers env (made @ xs) ys"
  by (induction xs arbitrary: made) simp_all

lemma map_fst_answers: "map fst (answers env made cs) = cs"
  by (induction cs arbitrary: made) simp_all

text \<open>The three ways through \<^verbatim>\<open>create_snapshot\<close> outside dry-run mode.\<close>

lemma create_snapshot_cases:
  assumes run: "create_snapshot ex env w d zone arg now = ((ok, m, det), w')"
    and nd: "\<not> ex_dry_run ex"
  shows "(\<exists>e. disks_get env (calls w) (DisksGet (ex_project_id ex) zone d) = Inl e \<and>
              \<not> ok \<and> m = ''Failed to create snapshot: '' @ e \<and>
              calls w' = calls w @ [DisksGet (ex_project_id ex) zone d]) \<or>
         (\<exists>link sn ds e.
              disks_get env (calls w) (DisksGet (ex_project_id ex) zone d) = Inr link \<and>
              snapshots_insert env (calls w @ [DisksGet (ex_project_id ex) zone d])
                (SnapshotsInsert (ex_project_id ex) sn link ds) = Inl e \<and>
              \<not> ok \<and> m = ''Failed to create snapshot: '' @ e \<and>
              calls w' = calls w @ [DisksGet (ex_project_id ex) zone d,
                                    SnapshotsInsert (ex_project_id ex) sn link ds]) \<or>
         (\<exists>link sn ds name.
              disks_get env (calls w) (DisksGet (ex_project_id ex) zone d) = Inr link \<and>
              snapshots_insert env (calls w @ [DisksGet (ex_project_id ex) zone d])
                (SnapshotsInsert (ex_project_id ex) sn link ds) = Inr name \<and>
              ok \<and>
              calls w' = calls w @ [DisksGet (ex_project_id ex) zone d,
                                    SnapshotsInsert (ex_project_id ex) sn link ds])"
  using run nd
  by (auto simp: create_snapshot_def Let_def split: sum.splits)

text \<open>Outside dry-run mode, \<^verbatim>\<open>create_snapshot\<close> succeeds when the cloud answered each of its
  calls, and fails on the first call that the cloud refused, which is then the last call
  it made, with the cloud's error text in its message.\<close>

lemma create_snapshot_answers:
  assumes run: "create_snapshot ex env w d zone arg now = ((ok, m, det), w')"
    and nd: "\<not> ex_dry_run ex"
  shows "\<exists>cs. calls w' = calls w @ cs \<and>
           (if ok then list_all (\<lambda>a. snd a = None) (answers env (calls w) cs)
            else \<exists>pre c e. cs = pre @ [c] \<and>
                   list_all (\<lambda>a. snd a = None) (answers env (calls w) pre) \<and>
                   cloud_error env (calls w @ pre) c = Some e \<and>
                   m = ''Failed to create snapshot: '' @ e)"
proof -
  let ?c1 = "DisksGet (ex_project_id ex) zone d"
  from create_snapshot_cases [OF run nd]
  consider
    (lookup) e where "disks_get env (calls w) ?c1 = Inl e" "\<not> ok"
      "m = ''Failed to create snapshot: '' @ e" "calls w' = calls w @ [?c1]"
  | (insert) link sn ds e where "disks_get env (calls w) ?c1 = Inr link"
      "snapshots_insert env (calls w @ [?c1]) (SnapshotsInsert (ex_project_id ex) sn link ds) =
         Inl e"
      "\<not> ok" "m = ''Failed to create snapshot: '' @ e"
      "calls w' = calls w @ [?c1, SnapshotsInsert (ex_project_id ex) sn link ds]"
  | (good) link sn ds name where "disks_get env (calls w) ?c1 = Inr link"
      "snapshots_insert env (calls w @ [?c1]) (SnapshotsInsert (ex_project_id ex) sn link ds) =
         Inr name"
      "ok" "calls w' = calls w @ [?c1, SnapshotsInsert (ex_project_id ex) sn link ds]"
    by blast
  then show ?thesis
  proof cases
    case lookup
    have "[?c1] = [] @ [?c1] \<and>
          list_all (\<lambda>a. snd a = None) (answers env (calls w) []) \<and>
          cloud_error env (calls w @ []) ?c1 = Some e \<and>
          m = ''Failed to create snapshot: '' @ e"
      using lookup by simp
    then have "\<exists>pre c e. [?c1] = pre @ [c] \<and>
          list_all (\<lambda>a. snd a = None) (answers env (calls w) pre) \<and>
          cloud_error env (calls w @ pre) c = Some e \<and>
          m = ''Failed to create snapshot: '' @ e"
      by blast
    with lookup show ?thesis
      by (intro exI [where x = "[?c1]"]) simp
  next
    case insert
    let ?c2 = "SnapshotsInsert (ex_project_id ex) sn link ds"
    have "[?c1, ?c2] = [?c1] @ [?c2] \<and>
          list_all (\<lambda>a. snd a = None) (answers env (calls w) [?c1]) \<and>
          cloud_error env (calls w @ [?c1]) ?c2 = Some e \<and>
          m = ''Failed to create snapshot: '' @ e"
      using insert by simp
    then have "\<exists>pre c e. [?c1, ?c2] = pre @ [c] \<and>
          list_all (\<lambda>a. snd a = None) (answers env (calls w) pre) \<and>
          cloud_error env (calls w @ pre) c = Some e \<and>
          m = ''Failed to create snapshot: '' @ e"
      by blast
    with insert show ?thesis
      by (intro exI [where x = "[?c1, ?c2]"]) simp
  next
    case good
    then show ?thesis
      by (intro exI [where x = "[?c1, SnapshotsInsert (ex_project_id ex) sn link ds]"]) simp
  qed
qed

text \<open>Outside dry-run mode the loop ends normally when the cloud answered every call, and
  returns early on the first call the cloud refused: that call is the last one made, and
  the last entry carries the cloud's error text.\<close>

lemma snapshot_disks_answers:
  assumes "snapshot_disks ex env zone i disks snaps w = ((res, snaps'), w')"
    and nd: "\<not> ex_dry_run ex"
  shows "\<exists>cs. calls w' = calls w @ cs \<and>
           (case res of
              None \<Rightarrow> list_all (\<lambda>a. snd a = None) (answers env (calls w) cs)
            | Some msg \<Rightarrow>
                \<exists>pre c e. cs = pre @ [c] \<and>
                   list_all (\<lambda>a. snd a = None) (answers env (calls w) pre) \<and>
                   cloud_error env (calls w @ pre) c = Some e \<and> snaps' \<noteq> [] \<and>
                   se_message (last snaps') = ''Failed to create snapshot: '' @ e)"
  using assms(1)
proof (induction disks arbitrary: i snaps w)
  case Nil
  then show ?case by simp
next
  case (Cons source rest)
  obtain ok m sdet w1 where cs:
    "create_snapshot ex env w (last_segment source) zone None (utcnow env (AtSnapshot i)) =
       ((ok, m, sdet), w1)"
    by (metis prod_cases3 surj_pair)
  let ?e = "\<lparr>se_disk = last_segment source, se_success = ok, se_message = m\<rparr>"
  from create_snapshot_answers [OF cs nd]
  obtain cs1 where c1: "calls w1 = calls w @ cs1"
    and a1: "if ok then list_all (\<lambda>a. snd a = None) (answers env (calls w) cs1)
             else \<exists>pre c e. cs1 = pre @ [c] \<and>
                    list_all (\<lambda>a. snd a = None) (answers env (calls w) pre) \<and>
                    cloud_error env (calls w @ pre) c = Some e \<and>
                    m = ''Failed to create snapshot: '' @ e"
    by blast
  show ?case
  proof (cases ok)
    case False
    with Cons.prems cs have r: "res \<noteq> None" "snaps' = snaps @ [?e]" "w' = w1"
      by (auto simp add: Let_def)
    from r(1) obtain msg where res: "res = Some msg"
      by blast
    show ?thesis
      using a1 False c1 r(2,3) res by (intro exI [where x = cs1]) simp
  next
    case True
    with Cons.prems cs have rec:
      "snapshot_disks ex env zone (Suc i) rest (snaps @ [?e]) w1 = ((res, snaps'), w')"
      by (simp add: Let_def)
    from Cons.IH [OF rec]
    obtain cs2 where c2: "calls w' = calls w1 @ cs2"
      and a2: "case res of
              None \<Rightarrow> list_all (\<lambda>a. snd a = None) (answers env (calls w1) cs2)
            | Some msg \<Rightarrow>
                \<exists>pre c e. cs2 = pre @ [c] \<and>
                   list_all (\<lambda>a. snd a = None) (answers env (calls w1) pre) \<and>
                   cloud_error env (calls w1 @ pre) c = Some e \<and> snaps' \<noteq> [] \<and>
                   se_message (last snaps') = ''Failed to create snapshot: '' @ e"
      by blast
    have good1: "list_all (\<lambda>a. snd a = None) (answers env (calls w) cs1)"
      using a1 True by simp
    show ?thesis
    proof (cases res)
      case None
      then show ?thesis
        using a2 good1 c1 c2
        by (intro exI [where x = "cs1 @ cs2"]) (simp add: answers_append)
    next
      case (Some msg)
      with a2 obtain pre c e where p: "cs2 = pre @ [c]"
        "list_all (\<lambda>a. snd a = None) (answers env (calls w1) pre)"
        "cloud_error env (calls w1 @ pre) c = Some e" "snaps' \<noteq> []"
        "se_message (last snaps') = ''Failed to create snapshot: '' @ e"
        by auto
      have "cs1 @ cs2 = (cs1 @ pre) @ [c] \<and>
            list_all (\<lambda>a. snd a = None) (answers env (calls w) (cs1 @ pre)) \<and>
            cloud_error env (calls w @ cs1 @ pre) c = Some e \<and> snaps' \<noteq> [] \<and>
            se_message (last snaps') = ''Failed to create snapshot: '' @ e"
        using p good1 c1 by (simp add: answers_append)
      then have "\<exists>pre c e. cs1 @ cs2 = pre @ [c] \<and>
            list_all (\<lambda>a. snd a = None) (answers env (calls w) pre) \<and>
            cloud_error env (calls w @ pre) c = Some e \<and> snaps' \<noteq> [] \<and>
            se_message (last snaps') = ''Failed to create snapshot: '' @ e"
        by (metis append.assoc)
      then show ?thesis
        using Some c1 c2 by (intro exI [where x = "cs1 @ cs2"]) simp
    qed
  qed
qed

lemma snapshot_disks_dry_run_calls:
  "ex_dry_run ex \<Longrightarrow> calls (snd (snapshot_disks ex env zone i disks snaps w)) = calls w"
  by (induction disks arbitrary: i snaps w) (auto simp: create_snapshot_def Let_def)

text \<open>\<^verbatim>\<open>stop_instance\<close> looks the instance up and makes at most one more call, the stop;
  its result is then the cloud's answer to that call.\<close>

lemma stop_instance_calls:
  assumes "stop_instance sr ex env w name zone user = ((sok, smsg, sdet), w')"
  shows "calls w' = calls w @ [InstancesGet (ex_project_id ex) zone name] \<or>
         (\<not> ex_dry_run ex \<and>
          calls w' = calls w @ [InstancesGet (ex_project_id ex) zone name,
                                InstancesStop (ex_project_id ex) zone name] \<and>
          (case instances_stop env (calls w @ [InstancesGet (ex_project_id ex) zone name])
                  (InstancesStop (ex_project_id ex) zone name) of
             Inl e \<Rightarrow> \<not> sok \<and> smsg = ''Failed to stop instance: '' @ e
           | Inr opname \<Rightarrow> sok))"
  using assms
  by (auto simp add: stop_instance_def get_instance_def Let_def
      split: option.splits prod.splits if_splits sum.splits)

text \<open>
  \<^bold>\<open>C8\<close>. Take a run of \<^verbatim>\<open>snapshot_and_stop\<close> on an instance that is found, and the
  calls it made with the cloud's answer to each.

  If the cloud refused a call of a disk's snapshot (the lookup of the disk or the insertion
  of the snapshot raised \<open>e\<close>), the action fails; that call is the last call made, so no
  later disk was attempted and no stop call was made, and \<^verbatim>\<open>stop_instance\<close> was not
  entered; the disks attempted are an initial part of the instance's disks; and the
  message is \<^verbatim>\<open>Failed to snapshot disk\<close>, the name of the last disk attempted, and the
  cloud's error.

  If the cloud refused the stop call, the action fails with the message
  \<^verbatim>\<open>Snapshots created but failed to stop: Failed to stop instance:\<close> and the cloud's error,
  after every disk of the instance was attempted.

  The entries of \<^verbatim>\<open>details["snapshots"]\<close> say the same: if one is not a success, it is the
  last, the cloud refused a snapshot call, the message names the entry's disk, and the
  disks attempted are the disks of the entries. Otherwise there is an entry for every disk,
  \<^verbatim>\<open>stop_instance\<close> ran on the state the snapshots left, and the result is its result:
  success exactly when the stop succeeded, the message \<^verbatim>\<open>Snapshots created but failed to
  stop:\<close> followed by the stop's own message when it did not, which no message of a
  snapshot failure is.
\<close>

theorem c8_snapshot_failure_stops_the_action:
  assumes run: "snapshot_and_stop sr ex env w name zone user = ((ok, msg, det), w')"
    and found: "instances_get env (calls w) (InstancesGet (ex_project_id ex) zone name) =
                  Some inst"
  shows "(let new = calls_since (length (calls w)) w';
              ans = answers env (calls w) new;
              w2 = snd (snapshot_disks ex env zone 0 (inst_disks inst) []
                          (snd (get_instance ex env w name zone)));
              stop = stop_instance sr ex env w2 name zone user
          in (\<forall>c e. (c, Some e) \<in> set ans \<and> \<not> is_stop_call c \<longrightarrow>
                 \<not> ok \<and> last new = c \<and> (\<forall>c'\<in>set new. \<not> is_stop_call c') \<and>
                 ss_stop_result det = None \<and> attempted_disks new \<noteq> [] \<and>
                 attempted_disks new =
                   map last_segment (take (length (attempted_disks new)) (inst_disks inst)) \<and>
                 msg = ''Failed to snapshot disk '' @ last (attempted_disks new) @
                       '': Failed to create snapshot: '' @ e) \<and>
             (\<forall>c e. (c, Some e) \<in> set ans \<and> is_stop_call c \<longrightarrow>
                 \<not> ok \<and> last new = c \<and>
                 attempted_disks new = map last_segment (inst_disks inst) \<and>
                 msg = ''Snapshots created but failed to stop: Failed to stop instance: '' @ e) \<and>
             (if \<exists>x\<in>set (ss_snapshots det). \<not> se_success x
              then \<not> ok \<and> ss_stop_result det = None \<and>
                   (\<forall>x\<in>set (butlast (ss_snapshots det)). se_success x) \<and>
                   \<not> se_success (last (ss_snapshots det)) \<and>
                   msg = ''Failed to snapshot disk '' @ se_disk (last (ss_snapshots det)) @
                         '': '' @ se_message (last (ss_snapshots det)) \<and>
                   length (ss_snapshots det) \<le> length (inst_disks inst) \<and>
                   map se_disk (ss_snapshots det) =
                     map last_segment (take (length (ss_snapshots det)) (inst_disks inst)) \<and>
                   attempted_disks new = map se_disk (ss_snapshots det) \<and>
                   (\<forall>c\<in>set new. \<not> is_stop_call c) \<and>
                   (\<exists>c e. (c, Some e) \<in> set ans \<and> \<not> is_stop_call c)
              else ss_stop_result det = Some (snd (snd (fst stop))) \<and>
                   length (ss_snapshots det) = length (inst_disks inst) \<and>
                   ok = fst (fst stop) \<and> w' = snd stop \<and>
                   msg = (if fst (fst stop)
                          then ''Snapshots created and instance '' @ name @ '' stopped''
                          else ''Snapshots created but failed to stop: '' @
                               fst (snd (fst stop))) \<and>
                   (\<not> ok \<longrightarrow>
                      (\<forall>d m. msg \<noteq> ''Failed to snapshot disk '' @ d @ '': '' @ m))))"
proof -
  let ?g = "InstancesGet (ex_project_id ex) zone name"
  let ?s = "InstancesStop (ex_project_id ex) zone name"
  let ?w1 = "w\<lparr>calls := calls w @ [?g]\<rparr>"
  let ?new = "calls_since (length (calls w)) w'"
  let ?ans = "answers env (calls w) ?new"
  let ?w2 = "snd (snapshot_disks ex env zone 0 (inst_disks inst) []
                    (snd (get_instance ex env w name zone)))"
  let ?stop = "stop_instance sr ex env ?w2 name zone user"
  have gi: "get_instance ex env w name zone = (Some inst, ?w1)"
    using found by (simp add: get_instance_effect)
  obtain res snaps w2 where sd:
    "snapshot_disks ex env zone 0 (inst_disks inst) [] ?w1 = ((res, snaps), w2)"
    by (metis surj_pair)
  have w2: "?w2 = w2"
    using gi sd by simp
  from snapshot_disks_effect [OF sd]
  obtain entries cs where s2: "snaps = [] @ entries" and c2: "calls w2 = calls ?w1 @ cs"
    and ns2: "\<forall>c\<in>set cs. \<not> is_stop_call c"
    and a2: "\<not> ex_dry_run ex \<longrightarrow> attempted_disks cs = map se_disk entries"
    and l2: "length entries \<le> length (inst_disks inst)"
    and m2: "map se_disk entries = map last_segment (take (length entries) (inst_disks inst))"
    and r2: "case res of
               None \<Rightarrow> (\<forall>e\<in>set entries. se_success e) \<and>
                        length entries = length (inst_disks inst)
             | Some msg \<Rightarrow> entries \<noteq> [] \<and> (\<forall>e\<in>set (butlast entries). se_success e) \<and>
                  \<not> se_success (last entries) \<and>
                  msg = ''Failed to snapshot disk '' @ se_disk (last entries) @ '': '' @
                        se_message (last entries)"
    by blast
  have snaps: "snaps = entries"
    using s2 by simp
  show ?thesis
  proof (cases res)
    case (Some m)
    with run found sd have out: "ok = False" "msg = m" "w' = w2"
      "det = \<lparr>ss_action = ''snapshot_and_stop'', ss_instance = name, ss_zone = zone,
              ss_snapshots = snaps, ss_stop_result = None\<rparr>"
      by (simp_all add: snapshot_and_stop_def get_instance_effect Let_def)
    have nd: "\<not> ex_dry_run ex"
      using snapshot_disks_dry_run [of ex env zone 0 "inst_disks inst" "[]" ?w1] sd Some
      by auto
    from snapshot_disks_answers [OF sd nd] Some c2
    obtain pre c e where p: "cs = pre @ [c]"
      "list_all (\<lambda>a. snd a = None) (answers env (calls ?w1) pre)"
      "cloud_error env (calls ?w1 @ pre) c = Some e"
      "se_message (last snaps) = ''Failed to create snapshot: '' @ e"
      by auto
    have new: "?new = ?g # pre @ [c]"
      using out c2 p(1) by (simp add: calls_since_def)
    have ans: "?ans = (?g, None) # answers env (calls w @ [?g]) pre @ [(c, Some e)]"
      using p(3) unfolding new by (simp add: answers_append)
    have only: "c' = c \<and> e' = e" if "(c', Some e') \<in> set ?ans" for c' e'
      using that p(2) unfolding ans by (auto simp: list_all_iff)
    have nostop: "\<forall>c'\<in>set ?new. \<not> is_stop_call c'"
      using ns2 p(1) unfolding new by simp
    have att: "attempted_disks ?new = map se_disk entries"
      using a2 nd p(1) unfolding new by simp
    have ne: "entries \<noteq> []" and lastfail: "\<not> se_success (last entries)"
      and butl: "\<forall>x\<in>set (butlast entries). se_success x"
      and m: "m = ''Failed to snapshot disk '' @ se_disk (last entries) @ '': '' @
                  se_message (last entries)"
      using r2 Some by simp_all
    have fail: "\<exists>x\<in>set (ss_snapshots det). \<not> se_success x"
      using out snaps ne lastfail by (auto intro: bexI [where x = "last entries"])
    have lastatt: "last (attempted_disks ?new) = se_disk (last entries)"
      using att ne by (simp add: last_map)
    have msg: "msg = ''Failed to snapshot disk '' @ last (attempted_disks ?new) @
                     '': Failed to create snapshot: '' @ e"
      using out(2) m lastatt p(4) snaps by simp
    have prefix: "attempted_disks ?new =
        map last_segment (take (length (attempted_disks ?new)) (inst_disks inst))"
      using att m2 l2 by (simp add: min_absorb2)
    have A: "\<forall>c' e'. (c', Some e') \<in> set ?ans \<and> \<not> is_stop_call c' \<longrightarrow>
                 \<not> ok \<and> last ?new = c' \<and> (\<forall>c''\<in>set ?new. \<not> is_stop_call c'') \<and>
                 ss_stop_result det = None \<and> attempted_disks ?new \<noteq> [] \<and>
                 attempted_disks ?new =
                   map last_segment (take (length (attempted_disks ?new)) (inst_disks inst)) \<and>
                 msg = ''Failed to snapshot disk '' @ last (attempted_disks ?new) @
                       '': Failed to create snapshot: '' @ e'"
    proof (intro allI impI)
      fix c' e'
      assume h: "(c', Some e') \<in> set ?ans \<and> \<not> is_stop_call c'"
      then have eq: "c' = c" "e' = e"
        using only by blast+
      have "last ?new = c"
        unfolding new by simp
      moreover have "attempted_disks ?new \<noteq> []"
        using att ne by simp
      ultimately show "\<not> ok \<and> last ?new = c' \<and> (\<forall>c''\<in>set ?new. \<not> is_stop_call c'') \<and>
                 ss_stop_result det = None \<and> attempted_disks ?new \<noteq> [] \<and>
                 attempted_disks ?new =
                   map last_segment (take (length (attempted_disks ?new)) (inst_disks inst)) \<and>
                 msg = ''Failed to snapshot disk '' @ last (attempted_disks ?new) @
                       '': Failed to create snapshot: '' @ e'"
        using eq out(1,4) nostop prefix msg by simp
    qed
    have B: "\<forall>c' e'. (c', Some e') \<in> set ?ans \<and> is_stop_call c' \<longrightarrow>
                 \<not> ok \<and> last ?new = c' \<and>
                 attempted_disks ?new = map last_segment (inst_disks inst) \<and>
                 msg = ''Snapshots created but failed to stop: Failed to stop instance: '' @ e'"
    proof (intro allI impI)
      fix c' e'
      assume h: "(c', Some e') \<in> set ?ans \<and> is_stop_call c'"
      then have "c' \<in> set ?new"
        using map_fst_answers [of env "calls w" ?new] by (metis fst_conv imageI set_map)
      with nostop h show "\<not> ok \<and> last ?new = c' \<and>
                 attempted_disks ?new = map last_segment (inst_disks inst) \<and>
                 msg = ''Snapshots created but failed to stop: Failed to stop instance: '' @ e'"
        by blast
    qed
    have witness_call: "\<exists>c' e'. (c', Some e') \<in> set ?ans \<and> \<not> is_stop_call c'"
    proof -
      have "(c, Some e) \<in> set ?ans"
        unfolding ans by simp
      moreover have "\<not> is_stop_call c"
        using ns2 p(1) by simp
      ultimately show ?thesis
        by blast
    qed
    have C: "(if \<exists>x\<in>set (ss_snapshots det). \<not> se_success x
              then \<not> ok \<and> ss_stop_result det = None \<and>
                   (\<forall>x\<in>set (butlast (ss_snapshots det)). se_success x) \<and>
                   \<not> se_success (last (ss_snapshots det)) \<and>
                   msg = ''Failed to snapshot disk '' @ se_disk (last (ss_snapshots det)) @
                         '': '' @ se_message (last (ss_snapshots det)) \<and>
                   length (ss_snapshots det) \<le> length (inst_disks inst) \<and>
                   map se_disk (ss_snapshots det) =
                     map last_segment (take (length (ss_snapshots det)) (inst_disks inst)) \<and>
                   attempted_disks ?new = map se_disk (ss_snapshots det) \<and>
                   (\<forall>c\<in>set ?new. \<not> is_stop_call c) \<and>
                   (\<exists>c e. (c, Some e) \<in> set ?ans \<and> \<not> is_stop_call c)
              else ss_stop_result det = Some (snd (snd (fst ?stop))) \<and>
                   length (ss_snapshots det) = length (inst_disks inst) \<and>
                   ok = fst (fst ?stop) \<and> w' = snd ?stop \<and>
                   msg = (if fst (fst ?stop)
                          then ''Snapshots created and instance '' @ name @ '' stopped''
                          else ''Snapshots created but failed to stop: '' @
                               fst (snd (fst ?stop))) \<and>
                   (\<not> ok \<longrightarrow>
                      (\<forall>d m. msg \<noteq> ''Failed to snapshot disk '' @ d @ '': '' @ m)))"
      using fail out snaps butl lastfail m l2 m2 att nostop witness_call
      by (simp only: if_True) simp
    show ?thesis
      unfolding Let_def by (intro conjI) (rule A, rule B, rule C)
  next
    case None
    obtain sok smsg sdet w3 where st:
      "stop_instance sr ex env w2 name zone user = ((sok, smsg, sdet), w3)"
      by (metis prod_cases3 surj_pair)
    with run found sd None have out: "ss_snapshots det = snaps"
      "ss_stop_result det = Some sdet" "ok = sok" "w' = w3"
      "msg = (if sok then ''Snapshots created and instance '' @ name @ '' stopped''
              else ''Snapshots created but failed to stop: '' @ smsg)"
      by (auto simp add: snapshot_and_stop_def get_instance_effect Let_def split: if_splits)
    have allok: "\<forall>x\<in>set entries. se_success x"
      and len: "length entries = length (inst_disks inst)"
      using r2 None by simp_all
    have good: "list_all (\<lambda>a. snd a = None) (answers env (calls ?w1) cs)"
    proof (cases "ex_dry_run ex")
      case True
      then have "calls w2 = calls ?w1"
        using snapshot_disks_dry_run_calls [of ex env zone 0 "inst_disks inst" "[]" ?w1] sd
        by simp
      then show ?thesis
        using c2 by simp
    next
      case False
      from snapshot_disks_answers [OF sd False] None c2 show ?thesis
        by auto
    qed
    have nofail: "\<not> (\<exists>x\<in>set (ss_snapshots det). \<not> se_success x)"
      using out(1) snaps allok by simp
    have C: "(if \<exists>x\<in>set (ss_snapshots det). \<not> se_success x
              then \<not> ok \<and> ss_stop_result det = None \<and>
                   (\<forall>x\<in>set (butlast (ss_snapshots det)). se_success x) \<and>
                   \<not> se_success (last (ss_snapshots det)) \<and>
                   msg = ''Failed to snapshot disk '' @ se_disk (last (ss_snapshots det)) @
                         '': '' @ se_message (last (ss_snapshots det)) \<and>
                   length (ss_snapshots det) \<le> length (inst_disks inst) \<and>
                   map se_disk (ss_snapshots det) =
                     map last_segment (take (length (ss_snapshots det)) (inst_disks inst)) \<and>
                   attempted_disks ?new = map se_disk (ss_snapshots det) \<and>
                   (\<forall>c\<in>set ?new. \<not> is_stop_call c) \<and>
                   (\<exists>c e. (c, Some e) \<in> set ?ans \<and> \<not> is_stop_call c)
              else ss_stop_result det = Some (snd (snd (fst ?stop))) \<and>
                   length (ss_snapshots det) = length (inst_disks inst) \<and>
                   ok = fst (fst ?stop) \<and> w' = snd ?stop \<and>
                   msg = (if fst (fst ?stop)
                          then ''Snapshots created and instance '' @ name @ '' stopped''
                          else ''Snapshots created but failed to stop: '' @
                               fst (snd (fst ?stop))) \<and>
                   (\<not> ok \<longrightarrow>
                      (\<forall>d m. msg \<noteq> ''Failed to snapshot disk '' @ d @ '': '' @ m)))"
      using nofail out snaps len st unfolding w2 by auto
    from stop_instance_calls [OF st]
    consider (lookup) "calls w3 = calls w2 @ [?g]"
      | (stopped) "\<not> ex_dry_run ex" "calls w3 = calls w2 @ [?g, ?s]"
          "case instances_stop env (calls w2 @ [?g]) ?s of
             Inl e \<Rightarrow> \<not> sok \<and> smsg = ''Failed to stop instance: '' @ e
           | Inr opname \<Rightarrow> sok"
      by blast
    then have AB: "(\<forall>c' e'. (c', Some e') \<in> set ?ans \<and> \<not> is_stop_call c' \<longrightarrow>
                 \<not> ok \<and> last ?new = c' \<and> (\<forall>c''\<in>set ?new. \<not> is_stop_call c'') \<and>
                 ss_stop_result det = None \<and> attempted_disks ?new \<noteq> [] \<and>
                 attempted_disks ?new =
                   map last_segment (take (length (attempted_disks ?new)) (inst_disks inst)) \<and>
                 msg = ''Failed to snapshot disk '' @ last (attempted_disks ?new) @
                       '': Failed to create snapshot: '' @ e') \<and>
             (\<forall>c' e'. (c', Some e') \<in> set ?ans \<and> is_stop_call c' \<longrightarrow>
                 \<not> ok \<and> last ?new = c' \<and>
                 attempted_disks ?new = map last_segment (inst_disks inst) \<and>
                 msg = ''Snapshots created but failed to stop: Failed to stop instance: '' @ e')"
    proof cases
      case lookup
      have new: "?new = ?g # cs @ [?g]"
        using out(4) c2 lookup by (simp add: calls_since_def)
      have ans: "?ans = (?g, None) # answers env (calls w @ [?g]) cs @ [(?g, None)]"
        unfolding new by (simp add: answers_append)
      have none: "(c', Some e') \<notin> set ?ans" for c' e'
        using good unfolding ans by (auto simp: list_all_iff)
      then show ?thesis
        by blast
    next
      case stopped
      have new: "?new = ?g # cs @ [?g, ?s]"
        using out(4) c2 stopped(2) by (simp add: calls_since_def)
      have ans: "?ans = (?g, None) # answers env (calls w @ [?g]) cs @
                   [(?g, None), (?s, cloud_error env (calls w2 @ [?g]) ?s)]"
        unfolding new using c2 by (simp add: answers_append)
      have only: "c' = ?s \<and> cloud_error env (calls w2 @ [?g]) ?s = Some e'"
        if "(c', Some e') \<in> set ?ans" for c' e'
        using that good unfolding ans by (auto simp: list_all_iff)
      have att: "attempted_disks ?new = map last_segment (inst_disks inst)"
        using a2 stopped(1) m2 len unfolding new by (simp add: attempted_disks_append)
      have stopfail: "\<not> ok \<and>
          msg = ''Snapshots created but failed to stop: Failed to stop instance: '' @ e'"
        if "cloud_error env (calls w2 @ [?g]) ?s = Some e'" for e'
        using that stopped(3) out(3,5) by (auto split: sum.splits)
      have lst: "last ?new = ?s"
        unfolding new by simp
      show ?thesis
        using only att stopfail lst by (metis is_stop_call.simps(1))
    qed
    show ?thesis
      unfolding Let_def using AB C by blast
  qed
qed

text \<open>Two runs of \<^bold>\<open>C8\<close> on an instance with two disks. In the first the cloud refuses
  the lookup of the second disk: the action fails naming \<^verbatim>\<open>disk-2\<close>, both disks were
  attempted and no stop call was made. In the second the cloud snapshots both disks and
  refuses the stop: the action fails with the message of a stop failure.\<close>

theorem c8_snapshot_failure_stops_the_action_witness:
  "fst (fst (snapshot_and_stop (example_rules default_tags 3 False) (example_executor False)
      (example_cloud (example_vm [] [''zones/z/disks/disk-1'', ''zones/z/disks/disk-2''])
         [''disk-2''])
      fresh_world ''vm-1'' ''z'' ''ops@example.com'')) = False \<and>
   fst (snd (fst (snapshot_and_stop (example_rules default_tags 3 False)
      (example_executor False)
      (example_cloud (example_vm [] [''zones/z/disks/disk-1'', ''zones/z/disks/disk-2''])
         [''disk-2''])
      fresh_world ''vm-1'' ''z'' ''ops@example.com''))) =
     ''Failed to snapshot disk disk-2: Failed to create snapshot: disk unavailable'' \<and>
   attempted_disks (calls (snd (snapshot_and_stop (example_rules default_tags 3 False)
      (example_executor False)
      (example_cloud (example_vm [] [''zones/z/disks/disk-1'', ''zones/z/disks/disk-2''])
         [''disk-2''])
      fresh_world ''vm-1'' ''z'' ''ops@example.com''))) = [''disk-1'', ''disk-2''] \<and>
   filter is_stop_call (calls (snd (snapshot_and_stop (example_rules default_tags 3 False)
      (example_executor False)
      (example_cloud (example_vm [] [''zones/z/disks/disk-1'', ''zones/z/disks/disk-2''])
         [''disk-2''])
      fresh_world ''vm-1'' ''z'' ''ops@example.com''))) = [] \<and>
   fst (fst (snapshot_and_stop (example_rules default_tags 3 False) (example_executor False)
      (example_cloud_refusing_stop
         (example_vm [] [''zones/z/disks/disk-1'', ''zones/z/disks/disk-2'']))
      fresh_world ''vm-1'' ''z'' ''ops@example.com'')) = False \<and>
   fst (snd (fst (snapshot_and_stop (example_rules default_tags 3 False)
      (example_executor False)
      (example_cloud_refusing_stop
         (example_vm [] [''zones/z/disks/disk-1'', ''zones/z/disks/disk-2'']))
      fresh_world ''vm-1'' ''z'' ''ops@example.com''))) =
     ''Snapshots created but failed to stop: Failed to stop instance: quota exceeded''"
proof -
  let ?vm = "example_vm [] [''zones/z/disks/disk-1'', ''zones/z/disks/disk-2'']"
  let ?sr = "example_rules default_tags 3 False"
  let ?ex = "example_executor False"
  let ?env1 = "example_cloud ?vm [''disk-2'']"
  let ?env2 = "example_cloud_refusing_stop ?vm"
  let ?run1 = "snapshot_and_stop ?sr ?ex ?env1 fresh_world ''vm-1'' ''z'' ''ops@example.com''"
  let ?run2 = "snapshot_and_stop ?sr ?ex ?env2 fresh_world ''vm-1'' ''z'' ''ops@example.com''"
  let ?d2 = "DisksGet ''proj'' ''z'' ''disk-2''"
  let ?s = "InstancesStop ''proj'' ''z'' ''vm-1''"
  have run1: "?run1 = ((fst (fst ?run1), fst (snd (fst ?run1)), snd (snd (fst ?run1))), snd ?run1)"
    by (simp only: prod_eq_iff fst_conv snd_conv simp_thms)
  have run2: "?run2 = ((fst (fst ?run2), fst (snd (fst ?run2)), snd (snd (fst ?run2))), snd ?run2)"
    by (simp only: prod_eq_iff fst_conv snd_conv simp_thms)
  have found1: "instances_get ?env1 (calls fresh_world)
                  (InstancesGet (ex_project_id ?ex) ''z'' ''vm-1'') = Some ?vm"
    by (simp add: example_cloud_def)
  have found2: "instances_get ?env2 (calls fresh_world)
                  (InstancesGet (ex_project_id ?ex) ''z'' ''vm-1'') = Some ?vm"
    by (simp add: example_cloud_def example_cloud_refusing_stop_def)
  have calls1: "calls_since (length (calls fresh_world)) (snd ?run1) =
      [InstancesGet ''proj'' ''z'' ''vm-1'', DisksGet ''proj'' ''z'' ''disk-1'',
       SnapshotsInsert ''proj'' ''cloudguard-disk-1-20231114-221320'' ''link/disk-1''
         ''CloudGuard automatic snapshot of disk-1'', ?d2]"
    by (simp add: calls_since_def executor_eval)
  have calls2: "calls_since (length (calls fresh_world)) (snd ?run2) =
      [InstancesGet ''proj'' ''z'' ''vm-1'', DisksGet ''proj'' ''z'' ''disk-1'',
       SnapshotsInsert ''proj'' ''cloudguard-disk-1-20231114-221320'' ''link/disk-1''
         ''CloudGuard automatic snapshot of disk-1'', ?d2,
       SnapshotsInsert ''proj'' ''cloudguard-disk-2-20231114-221320'' ''link/disk-2''
         ''CloudGuard automatic snapshot of disk-2'',
       InstancesGet ''proj'' ''z'' ''vm-1'', ?s]"
    by (simp add: calls_since_def executor_eval example_cloud_refusing_stop_def)
  have all1: "calls (snd ?run1) = calls_since (length (calls fresh_world)) (snd ?run1)"
    by (simp add: calls_since_def fresh_world_def)
  have mem1: "(?d2, Some ''disk unavailable'') \<in>
      set (answers ?env1 (calls fresh_world)
             (calls_since (length (calls fresh_world)) (snd ?run1)))"
    unfolding calls1 by (simp add: example_cloud_def fresh_world_def)
  have mem2: "(?s, Some ''quota exceeded'') \<in>
      set (answers ?env2 (calls fresh_world)
             (calls_since (length (calls fresh_world)) (snd ?run2)))"
    unfolding calls2
    by (simp add: example_cloud_def example_cloud_refusing_stop_def fresh_world_def)
  have n1: "\<not> is_stop_call ?d2" and n2: "is_stop_call ?s"
    by simp_all
  note first = c8_snapshot_failure_stops_the_action [OF run1 found1, unfolded Let_def]
  note second = c8_snapshot_failure_stops_the_action [OF run2 found2, unfolded Let_def]
  from first [THEN conjunct1, rule_format, OF conjI [OF mem1 n1]]
  have a: "fst (fst ?run1) = False \<and>
           fst (snd (fst ?run1)) =
             ''Failed to snapshot disk disk-2: Failed to create snapshot: disk unavailable'' \<and>
           attempted_disks (calls (snd ?run1)) = [''disk-1'', ''disk-2''] \<and>
           filter is_stop_call (calls (snd ?run1)) = []"
    unfolding all1 unfolding calls1 by simp
  from second [THEN conjunct2, THEN conjunct1, rule_format, OF conjI [OF mem2 n2]]
  have b: "fst (fst ?run2) = False \<and>
           fst (snd (fst ?run2)) =
             ''Snapshots created but failed to stop: Failed to stop instance: quota exceeded''"
    by simp
  from a b show ?thesis
    by simp
qed

subsection \<open>The anomaly detector\<close>

lemma sum_list_constant:
  "\<forall>x\<in>set xs. x = (v::real) \<Longrightarrow> sum_list xs = real (length xs) * v"
  by (induction xs) (auto simp: algebra_simps)

lemma mean_constant: "xs \<noteq> [] \<Longrightarrow> \<forall>x\<in>set xs. x = v \<Longrightarrow> mean xs = v"
  by (simp add: mean_def sum_list_constant)

lemma stdev_constant:
  assumes ne: "xs \<noteq> []" and c: "\<forall>x\<in>set xs. x = v"
  shows "stdev xs = 0"
proof -
  have m: "mean xs = v"
    using ne c by (rule mean_constant)
  have "sum_list (map (\<lambda>x. (x - v)\<^sup>2) xs) = 0"
    using c by (induction xs) auto
  then show ?thesis
    by (simp add: stdev_def m)
qed

text \<open>On a baseline whose recent samples are three or more and all equal \<open>v\<close>, the score
  is the sentinel: 5 above \<open>v\<close>, 0 otherwise.\<close>

lemma detect_anomaly_constant:
  assumes len: "3 \<le> length (take 7 (map daily_spend (daily_spend_data st)))"
    and c: "\<forall>x\<in>set (take 7 (map daily_spend (daily_spend_data st))). x = v"
  shows "is_anomaly (detect_anomaly st T cur) = ((if cur > v then 5 else 0) > T)"
    and "z_score (detect_anomaly st T cur) = (if cur > v then 5 else 0)"
proof -
  let ?r = "take 7 (map daily_spend (daily_spend_data st))"
  have ne: "?r \<noteq> []"
    using len by auto
  have ne2: "daily_spend_data st \<noteq> []"
    using len by auto
  have m: "mean ?r = v"
    using ne c by (rule mean_constant)
  have s: "stdev ?r = 0"
    using ne c by (rule stdev_constant)
  have l3: "\<not> length ?r < 3"
    using len by simp
  have l1: "length ?r > 1"
    using len by simp
  show "is_anomaly (detect_anomaly st T cur) = ((if cur > v then 5 else 0) > T)"
    unfolding detect_anomaly_def Let_def using ne2 l3 l1 m s by simp
  show "z_score (detect_anomaly st T cur) = (if cur > v then 5 else 0)"
    unfolding detect_anomaly_def Let_def using ne2 l3 l1 m s
    by (simp add: py_round_def round_half_even_def)
qed

lemma constant_baseline_recent:
  "take 7 (map daily_spend (daily_spend_data (constant_baseline n v))) = replicate (min 7 n) v"
  by (simp add: constant_baseline_def take_replicate min.commute)

text \<open>
  \<^bold>\<open>C5\<close>, the claim as stated fails, in three ways. On seven days of 10: at the threshold
  5 a spend of 11 is not an anomaly (the sentinel 5 is not above 5); at the threshold -1 a
  spend of exactly 10 is an anomaly (the score 0 is above -1). And on two days of 10, at
  the threshold 2.5, a spend of 11 is not an anomaly: fewer than three samples give no
  verdict.
\<close>

theorem c5_sentinel_depends_on_threshold_and_sample_count:
  "is_anomaly (detect_anomaly (constant_baseline 7 10) 5 11) = False \<and>
   is_anomaly (detect_anomaly (constant_baseline 7 10) (- 1) 10) = True \<and>
   is_anomaly (detect_anomaly (constant_baseline 2 10) (5 / 2) 11) = False"
proof -
  have len: "3 \<le> length (take 7 (map daily_spend (daily_spend_data (constant_baseline 7 10))))"
    by (simp add: constant_baseline_recent)
  have c: "\<forall>x\<in>set (take 7 (map daily_spend (daily_spend_data (constant_baseline 7 10)))).
             x = 10"
    by (simp add: constant_baseline_recent)
  have a: "is_anomaly (detect_anomaly (constant_baseline 7 10) 5 11) = False"
    using detect_anomaly_constant(1) [OF len c, of 5 11] by simp
  have b: "is_anomaly (detect_anomaly (constant_baseline 7 10) (- 1) 10) = True"
    using detect_anomaly_constant(1) [OF len c, of "- 1" 10] by simp
  have two: "daily_spend_data (constant_baseline 2 10) \<noteq> []"
    by (simp add: constant_baseline_def numeral_2_eq_2)
  have d: "is_anomaly (detect_anomaly (constant_baseline 2 10) (5 / 2) 11) = False"
    unfolding detect_anomaly_def Let_def constant_baseline_recent using two by simp
  show ?thesis
    using a b d by simp
qed

text \<open>
  \<^bold>\<open>C5\<close>, amended. For every baseline whose most recent subset of up to 7 samples has at
  least 3 samples, all equal to a constant \<open>v\<close>: \<^verbatim>\<open>detect(v)\<close> has the score 0 and is an
  anomaly exactly when the threshold is negative, so it is none for every threshold
  \<open>T \<ge> 0\<close>; and for every \<open>\<epsilon> > 0\<close>, \<^verbatim>\<open>detect(v + \<epsilon>)\<close> has the sentinel score 5 and is an anomaly
  exactly when \<open>T < 5\<close>.
\<close>

theorem c5_constant_baseline_sentinel:
  assumes len: "3 \<le> length (take 7 (map daily_spend (daily_spend_data st)))"
    and c: "\<forall>x\<in>set (take 7 (map daily_spend (daily_spend_data st))). x = v"
    and e: "0 < eps"
  shows "z_score (detect_anomaly st T v) = 0 \<and>
         (is_anomaly (detect_anomaly st T v) \<longleftrightarrow> T < 0) \<and>
         z_score (detect_anomaly st T (v + eps)) = 5 \<and>
         (is_anomaly (detect_anomaly st T (v + eps)) \<longleftrightarrow> T < 5)"
  using detect_anomaly_constant [OF len c, of T v]
    detect_anomaly_constant [OF len c, of T "v + eps"] e
  by simp

text \<open>A run of the amended \<^bold>\<open>C5\<close>: seven days of 10 at the default threshold 2.5; a spend
  of 10 is no anomaly, a spend of 10.01 is one, with the score 5.\<close>

theorem c5_constant_baseline_sentinel_witness:
  "is_anomaly (detect_anomaly (constant_baseline 7 10) (5 / 2) 10) = False \<and>
   is_anomaly (detect_anomaly (constant_baseline 7 10) (5 / 2) (10 + 1 / 100)) = True \<and>
   z_score (detect_anomaly (constant_baseline 7 10) (5 / 2) (10 + 1 / 100)) = 5"
proof -
  have len: "3 \<le> length (take 7 (map daily_spend (daily_spend_data (constant_baseline 7 10))))"
    by (simp add: constant_baseline_recent)
  have c: "\<forall>x\<in>set (take 7 (map daily_spend (daily_spend_data (constant_baseline 7 10)))).
             x = 10"
    by (simp add: constant_baseline_recent)
  have e: "(0::real) < 1 / 100"
    by simp
  from c5_constant_baseline_sentinel [OF len c e, of "5 / 2"]
  show ?thesis
    by simp
qed

text \<open>
  \<^bold>\<open>C9\<close>. With a baseline of 7 daily samples of 10.00 and a current spend of 14.50 at the
  sensitivity 2.5, \<^verbatim>\<open>detect_anomaly\<close> takes the branch of a zero standard deviation and
  returns the score 5.0, \<^verbatim>\<open>is_anomaly\<close> true, the severity \<^verbatim>\<open>critical\<close> and a deviation of
  45.0 per cent (and the baseline 10.0).
\<close>

theorem c9_seven_days_of_ten_then_fourteen_fifty:
  "stdev (take 7 (map daily_spend (daily_spend_data (constant_baseline 7 10)))) = 0 \<and>
   z_score (detect_anomaly (constant_baseline 7 10) (5 / 2) (29 / 2)) = 5 \<and>
   is_anomaly (detect_anomaly (constant_baseline 7 10) (5 / 2) (29 / 2)) = True \<and>
   severity (detect_anomaly (constant_baseline 7 10) (5 / 2) (29 / 2)) = ''critical'' \<and>
   deviation_percent (detect_anomaly (constant_baseline 7 10) (5 / 2) (29 / 2)) = 45 \<and>
   baseline (detect_anomaly (constant_baseline 7 10) (5 / 2) (29 / 2)) = 10"
proof -
  let ?st = "constant_baseline 7 10"
  have rec: "take 7 (map daily_spend (daily_spend_data ?st)) = replicate 7 10"
    by (simp add: constant_baseline_recent)
  have m: "mean (replicate 7 (10::real)) = 10"
    by (rule mean_constant) simp_all
  have s: "stdev (replicate 7 (10::real)) = 0"
    by (rule stdev_constant [where v = 10]) simp_all
  have ne: "daily_spend_data ?st \<noteq> []"
    by (simp add: constant_baseline_def)
  have rd: "round_half_even 450 = 450" "round_half_even 500 = 500"
    "round_half_even 1000 = 1000"
    by (simp_all add: round_half_even_def)
  show ?thesis
    unfolding detect_anomaly_def Let_def rec using ne m s rd
    by (simp add: py_round_def)
qed

subsection \<open>Action tokens\<close>

lemmas token_eval =
  validate_token_def generate_token_def jwt_encode_def jwt_decode_def Let_def
  example_handler_def init_jwt_handler_def example_hmac_def example_isoformat_def
  example_claims_def numeric_date_def timedelta_hours_def

lemma numeric_date_le: "numeric_date t * 1000000 \<le> t"
  by (simp add: numeric_date_def)

text \<open>
  \<^bold>\<open>C3\<close>. For any grant fields, any handler and any keyed hash: a token issued at \<open>now\<close>
  and validated at a time \<open>later\<close>, not before its issue and before its expiry (the \<^verbatim>\<open>exp\<close>
  claim the token carries: the whole second of \<open>now\<close> plus the handler's hours), validates,
  and the payload returned has the \<^verbatim>\<open>resource_id\<close>, \<^verbatim>\<open>action\<close>, \<^verbatim>\<open>project_id\<close>,
  \<^verbatim>\<open>estimated_savings\<close> and \<^verbatim>\<open>user_email\<close> (and \<^verbatim>\<open>resource_type\<close>) that were issued.
\<close>

theorem c3_issue_then_validate_round_trip:
  assumes after: "now \<le> later"
    and before: "later < numeric_date (now + timedelta_hours (expiry_hours jh)) * 1000000"
  shows "\<exists>p. validate_token hm jh
                (generate_token hm isoformat jh now jti rid act pid rty sav email) later =
                Inr p \<and>
             c_resource_id p = rid \<and> c_action p = act \<and> c_project_id p = pid \<and>
             c_resource_type p = rty \<and> c_estimated_savings p = sav \<and>
             c_user_email p = email \<and>
             c_exp p = numeric_date (now + timedelta_hours (expiry_hours jh))"
proof -
  have iat: "\<not> numeric_date now * 1000000 > later"
    using numeric_date_le [of now] after by linarith
  have exp: "\<not> numeric_date (now + timedelta_hours (expiry_hours jh)) * 1000000 \<le> later"
    using before by linarith
  show ?thesis
    using iat exp
    by (simp add: validate_token_def generate_token_def jwt_encode_def jwt_decode_def Let_def)
qed

text \<open>A run of \<^bold>\<open>C3\<close>: a token of four hours issued half a second past a full second and
  validated a tenth of a second before its \<^verbatim>\<open>exp\<close> claim.\<close>

theorem c3_issue_then_validate_round_trip_witness:
  "validate_token example_hmac example_handler
     (generate_token example_hmac example_isoformat example_handler 1700000000500000
        ''id-1'' ''vm-1'' ''stop'' ''proj'' ''instance'' (25 / 2) (Some ''ops@example.com''))
     1700014399900000 = Inr (example_claims 1700000000 1700014400)"
proof -
  have after: "(1700000000500000::int) \<le> 1700014399900000"
    by simp
  have before: "1700014399900000 <
      numeric_date (1700000000500000 + timedelta_hours (expiry_hours example_handler)) * 1000000"
    by (simp add: token_eval)
  from c3_issue_then_validate_round_trip
         [OF after before, of example_hmac example_isoformat "''id-1''" "''vm-1''" "''stop''"
            "''proj''" "''instance''" "25 / 2" "Some ''ops@example.com''"]
  show ?thesis
    by (simp add: token_eval)
qed

text \<open>
  \<^bold>\<open>C4\<close>. Validation fails in two kinds only, \<open>ExpiredSignatureError\<close> and
  \<open>InvalidTokenError\<close>, which are distinct and which \<^verbatim>\<open>execute_action\<close> answers with
  distinct pages. A malformed token fails as invalid. A token whose signature is not the
  keyed hash of its own header and payload under the handler's secret fails as invalid,
  whatever the time; this is the case of a payload altered after signing, the signature
  being the hash of the original, as long as the hash tells the two payloads apart. A
  token never succeeds otherwise: a success means the token is the handler's algorithm,
  the returned payload and its keyed hash, read before the expiry. A well-formed,
  correctly signed token, issued no later than it expires, whose expiry has passed fails
  as expired.
\<close>

theorem c4_token_validation_failure_kinds:
  "validate_token hm jh (Garbage s) now = Inl InvalidTokenError \<and>
   (sig \<noteq> hm (secret jh) (alg, p) \<longrightarrow>
      validate_token hm jh (Token alg p sig) now = Inl InvalidTokenError) \<and>
   (hm (secret jh) (algorithm jh, p') \<noteq> hm (secret jh) (algorithm jh, p) \<longrightarrow>
      validate_token hm jh (Token (algorithm jh) p' (hm (secret jh) (algorithm jh, p))) now =
        Inl InvalidTokenError) \<and>
   (validate_token hm jh tok now = Inr q \<longrightarrow>
      tok = Token (algorithm jh) q (hm (secret jh) (algorithm jh, q)) \<and>
      now < c_exp q * 1000000) \<and>
   (c_iat p \<le> c_exp p \<and> c_exp p * 1000000 \<le> now \<longrightarrow>
      validate_token hm jh (Token (algorithm jh) p (hm (secret jh) (algorithm jh, p))) now =
        Inl ExpiredSignatureError) \<and>
   (\<forall>e. e = ExpiredSignatureError \<or> e = InvalidTokenError) \<and>
   ExpiredSignatureError \<noteq> InvalidTokenError \<and>
   token_error_response ExpiredSignatureError \<noteq> token_error_response InvalidTokenError"
proof -
  have a: "validate_token hm jh (Garbage s) now = Inl InvalidTokenError"
    by (simp add: validate_token_def jwt_decode_def)
  have b: "sig \<noteq> hm (secret jh) (alg, p) \<longrightarrow>
      validate_token hm jh (Token alg p sig) now = Inl InvalidTokenError" for sig alg p
    by (simp add: validate_token_def jwt_decode_def)
  have c: "c_iat p \<le> c_exp p \<and> c_exp p * 1000000 \<le> now \<longrightarrow>
      validate_token hm jh (Token (algorithm jh) p (hm (secret jh) (algorithm jh, p))) now =
        Inl ExpiredSignatureError"
    by (auto simp add: validate_token_def jwt_decode_def)
  have d: "validate_token hm jh tok now = Inr q \<longrightarrow>
      tok = Token (algorithm jh) q (hm (secret jh) (algorithm jh, q)) \<and>
      now < c_exp q * 1000000"
    by (cases tok) (auto simp add: validate_token_def jwt_decode_def split: if_splits)
  have e: "\<forall>e. e = ExpiredSignatureError \<or> e = InvalidTokenError"
    by (auto intro: jwt_error.exhaust)
  have b': "hm (secret jh) (algorithm jh, p') \<noteq> hm (secret jh) (algorithm jh, p) \<longrightarrow>
      validate_token hm jh (Token (algorithm jh) p' (hm (secret jh) (algorithm jh, p))) now =
        Inl InvalidTokenError"
    using b [of "hm (secret jh) (algorithm jh, p)" "algorithm jh" p'] by auto
  show ?thesis
    using a b [of sig alg p] b' c d e by simp
qed

text \<open>A run of \<^bold>\<open>C4\<close> under an ideal keyed hash: a string that is no token is invalid; a
  token signed for \<^verbatim>\<open>vm-1\<close> whose payload was changed to \<^verbatim>\<open>vm-2\<close> is invalid, also after
  its expiry; the unchanged token read at the second of its expiry is expired.\<close>

theorem c4_token_validation_failure_kinds_witness:
  "validate_token example_hmac example_handler (Garbage ''not-a-token'') 1700014400000000 =
     Inl InvalidTokenError \<and>
   validate_token example_hmac example_handler
     (Token ''HS256'' ((example_claims 1700000000 1700014400)\<lparr>c_resource_id := ''vm-2''\<rparr>)
        (example_hmac ''server-secret'' (''HS256'', example_claims 1700000000 1700014400)))
     1700014400000000 = Inl InvalidTokenError \<and>
   validate_token example_hmac example_handler
     (Token ''HS256'' (example_claims 1700000000 1700014400)
        (example_hmac ''server-secret'' (''HS256'', example_claims 1700000000 1700014400)))
     1700014400000000 = Inl ExpiredSignatureError"
proof -
  let ?p = "example_claims 1700000000 1700014400"
  let ?p' = "?p\<lparr>c_resource_id := ''vm-2''\<rparr>"
  have differ: "example_hmac (secret example_handler) (algorithm example_handler, ?p') \<noteq>
                example_hmac (secret example_handler) (algorithm example_handler, ?p)"
    by (simp add: example_hmac_def example_claims_def)
  have passed: "c_iat ?p \<le> c_exp ?p \<and> c_exp ?p * 1000000 \<le> 1700014400000000"
    by (simp add: example_claims_def)
  have hd: "secret example_handler = ''server-secret''" "algorithm example_handler = ''HS256''"
    by (simp_all add: example_handler_def init_jwt_handler_def)
  from c4_token_validation_failure_kinds
         [where hm = example_hmac and jh = example_handler and s = "''not-a-token''"
            and now = 1700014400000000 and p = ?p and p' = ?p']
    differ passed
  show ?thesis
    unfolding hd by blast
qed

end
